theory Spec2Isabelle
  imports Main
begin

section \<open>Account types of the direct-connect bank account\<close>

text \<open>
  Go strings are byte sequences, modelled as \<open>string\<close> (a list of 8-bit characters).
  \<open>strings.ToUpper\<close> belongs to the Go standard library. Its ASCII path is written out
  below as the library has it: a string made of ASCII bytes only is returned unchanged
  when it has no lower-case letter, and otherwise with every byte in \<open>a..z\<close> lowered by
  32. A string with a byte of 128 or more goes through the Unicode case tables, which
  are not part of this repository: that path is the parameter \<open>unicodeUpper\<close>.
\<close>

definition isASCII :: "char \<Rightarrow> bool" where
  "isASCII c = ((of_char c :: nat) < 128)"

definition isLower :: "char \<Rightarrow> bool" where
  "isLower c = (97 \<le> (of_char c :: nat) \<and> (of_char c :: nat) \<le> 122)"

definition upperByte :: "char \<Rightarrow> char" where
  "upperByte c = (if isLower c then char_of ((of_char c :: nat) - 32) else c)"

definition ToUpper :: "(string \<Rightarrow> string) \<Rightarrow> string \<Rightarrow> string" where
  "ToUpper unicodeUpper s =
     (if list_all isASCII s
      then (if list_ex isLower s then map upperByte s else s)
      else unicodeUpper s)"

text \<open>
  \<open>type accountType int\<close> with \<open>CheckingType = iota + 1\<close> and \<open>SavingsType\<close> after it.
  The zero value of the type is \<open>0\<close>.
\<close>

type_synonym accountType = int

definition CheckingType :: accountType where
  "CheckingType = 1"

definition SavingsType :: accountType where
  "SavingsType = 2"

definition accountType_String :: "accountType \<Rightarrow> string" where
  "accountType_String a =
     (if a = CheckingType then ''CHECKING''
      else if a = SavingsType then ''SAVINGS''
      else '''')"

definition ParseAccountType :: "(string \<Rightarrow> string) \<Rightarrow> string \<Rightarrow> accountType" where
  "ParseAccountType unicodeUpper s =
     (let u = ToUpper unicodeUpper s in
      if u = accountType_String CheckingType then CheckingType
      else if u = accountType_String SavingsType then SavingsType
      else 0)"

section \<open>Errors\<close>

text \<open>
  Go error values. \<open>ErrAuthFailed\<close> is the package-level sentinel of package
  \<open>direct\<close>; the handlers compare against it by identity (\<open>err == direct.ErrAuthFailed\<close>),
  so it is a constructor of its own and not an \<open>ErrorsNew\<close> with the same message.
  \<open>ErrorsNew\<close> is \<open>errors.New\<close>, \<open>Errorf\<close> is \<open>errors.Errorf\<close> with its format string and
  arguments, \<open>Wrap\<close> is \<open>errors.Wrap\<close>, and \<open>Errors\<close> is the slice type \<open>sErrors.Errors\<close>.
  Collaborators that are passed in as functions return values of this type, any of them.
\<close>

datatype fmt_arg = IntArg int | StrArg string | OpaqueArg

datatype error =
    ErrAuthFailed
  | ErrorsNew string
  | Errorf string "fmt_arg list"
  | Wrap error string
  | Errors "error list"

text \<open>
  Modelled from the spec: the accumulator \<open>sErrors.Errors\<close> (package \<open>errors\<close> of this
  repository, not among the sources). The spec only says that errors are collected
  (section 7); the three operations are taken from their call sites in
  \<open>ValidateConnector\<close>: \<open>ErrIf\<close> appends the message when its condition holds and
  returns the condition (it is used as \<open>if !errs.ErrIf(...)\<close>), \<open>AddErr\<close> appends a
  non-nil error, and \<open>ErrOrNil\<close> is nil exactly when nothing was appended.
\<close>

definition ErrIf :: "bool \<Rightarrow> string \<Rightarrow> error list \<Rightarrow> error list \<times> bool" where
  "ErrIf cond msg errs = (if cond then (errs @ [ErrorsNew msg], True) else (errs, False))"

definition AddErr :: "error option \<Rightarrow> error list \<Rightarrow> error list" where
  "AddErr e errs = (case e of None \<Rightarrow> errs | Some err \<Rightarrow> errs @ [err])"

definition ErrOrNil :: "error list \<Rightarrow> error option" where
  "ErrOrNil errs = (if errs = [] then None else Some (Errors errs))"

section \<open>The direct connector\<close>

text \<open>
  \<open>directConnect\<close> with the embedded \<open>model.BasicInstitution\<close>. Of \<open>Config\<close> (declared in
  another file of package \<open>direct\<close>) the record keeps the fields the functions below read.
\<close>

record Config =
  AppID :: string
  AppVersion :: string
  ClientID :: string
  OFXVersion :: string

record directConnect =
  InstDescription :: string
  InstFID :: string
  InstOrg :: string
  ConnectorURL :: string
  ConnectorUsername :: string
  ConnectorPassword :: string
  ConnectorConfig :: Config

text \<open>
  What \<open>ValidateConnector\<close> reads of a parsed \<open>url.URL\<close>: the scheme and the result of
  \<open>Hostname()\<close>.
\<close>

record ParsedURL =
  Scheme :: string
  Hostname :: string

text \<open>
  The functions \<open>ValidateConnector\<close> calls whose code is not in the sources, taken as
  parameters: \<open>model.ValidateInstitution\<close>, \<open>url.Parse\<close> (standard library),
  \<open>IsLocalhostTestURL\<close> (another file of package \<open>direct\<close>) and \<open>ofxgo.NewOfxVersion\<close>
  (of which only the error is used).
\<close>

record ConnectorDeps =
  ValidateInstitution :: "directConnect \<Rightarrow> error option"
  urlParse :: "string \<Rightarrow> error + ParsedURL"
  IsLocalhostTestURL :: "string \<Rightarrow> bool"
  NewOfxVersion :: "string \<Rightarrow> error option"

text \<open>
  \<open>ValidateConnector\<close>. The interface value may be nil: \<open>None\<close>. Each \<open>errs\<close> below is the
  accumulator after the corresponding statement of the source, in the source's order.
\<close>

definition ValidateConnector :: "ConnectorDeps \<Rightarrow> directConnect option \<Rightarrow> error option" where
  "ValidateConnector deps connector =
     (case connector of
        None \<Rightarrow> ErrOrNil (fst (ErrIf True ''Direct connect must not be empty'' []))
      | Some c \<Rightarrow>
          (let errs1 = AddErr (ValidateInstitution deps c) [];
               errs2 = fst (ErrIf (ConnectorURL c = '''') ''Institution URL must not be empty'' errs1);
               errs3 = (case urlParse deps (ConnectorURL c) of
                          Inl err \<Rightarrow> AddErr (Some (Wrap err ''Institution URL is malformed'')) errs2
                        | Inr u \<Rightarrow>
                            fst (ErrIf (Scheme u \<noteq> ''https'' \<and> Hostname u \<noteq> ''localhost'')
                                   ''Institution URL is required to use HTTPS'' errs2));
               errs4 = fst (ErrIf (ConnectorUsername c = '''')
                              ''Institution username must not be empty'' errs3);
               errs5 = fst (ErrIf (ConnectorPassword c = ''''
                                     \<and> \<not> IsLocalhostTestURL deps (ConnectorURL c))
                              ''Institution password must not be empty'' errs4);
               config = ConnectorConfig c;
               errs6 = fst (ErrIf (AppID config = '''')
                              ''Institution app ID must not be empty'' errs5);
               errs7 = fst (ErrIf (AppVersion config = '''')
                              ''Institution app version must not be empty'' errs6);
               ofx = ErrIf (OFXVersion config = '''')
                       ''Institution OFX version must not be empty'' errs7;
               errs8 = (if \<not> snd ofx then AddErr (NewOfxVersion deps (OFXVersion config)) (fst ofx)
                        else fst ofx)
           in ErrOrNil errs8))"

text \<open>Whether a returned error is an \<open>Errors\<close> value that lists \<open>e\<close>.\<close>

definition lists_error :: "error option \<Rightarrow> error \<Rightarrow> bool" where
  "lists_error r e = (case r of Some (Errors errs) \<Rightarrow> e \<in> set errs | _ \<Rightarrow> False)"

section \<open>Statement requests\<close>

text \<open>
  Times are nanoseconds since the epoch, durations nanoseconds, as in Go's \<open>time\<close>.
\<close>

type_synonym time = int

definition Hour :: int where
  "Hour = 3600000000000"

text \<open>
  The parts of an \<open>ofxgo.Request\<close> that the code sets: the URL and the signon block
  (\<open>addSignonRequest\<close>), the bank statement requests (\<open>generateBankStatement\<close>) and the
  credit-card statement requests (appended by the credit-card account, whose file is not
  among the sources). The zero value \<open>var query ofxgo.Request\<close> is \<open>emptyRequest\<close>.
\<close>

record SignonRequest =
  ClientUID :: string
  Org :: string
  Fid :: string
  UserID :: string
  UserPass :: string

record StatementRequest =
  TrnUID :: string
  BankID :: string
  AcctID :: string
  AcctType :: nat
  DtStart :: time
  DtEnd :: time
  Include :: bool

record CCStatementRequest =
  CCTrnUID :: string
  CCAcctID :: string
  CCDtStart :: time
  CCDtEnd :: time
  CCInclude :: bool

record Request =
  ReqURL :: string
  Signon :: SignonRequest
  Bank :: "StatementRequest list"
  CreditCard :: "CCStatementRequest list"

definition emptyRequest :: Request where
  "emptyRequest =
     \<lparr>ReqURL = '''',
      Signon = \<lparr>ClientUID = '''', Org = '''', Fid = '''', UserID = '''', UserPass = ''''\<rparr>,
      Bank = [], CreditCard = []\<rparr>"

text \<open>
  Of an \<open>ofxgo.Response\<close>: the signon status (code and message) and the rest, which only
  the parser reads. \<open>ofxgo.Int\<close> is an \<open>int64\<close>; the code is only compared, never
  computed with, so it is an \<open>int\<close> here.
\<close>

record Response =
  SignonStatusCode :: int
  SignonStatusMessage :: string
  Payload :: string

text \<open>
  A \<open>Requestor\<close> annotates the request it is given (the Go method mutates \<open>*req\<close>) and
  returns an error or nil.
\<close>

type_synonym Requestor = "time \<Rightarrow> time \<Rightarrow> Request \<Rightarrow> Request \<times> error option"

text \<open>
  \<open>bankAccount\<close> with its embedded \<open>directAccount\<close>, and \<open>generateBankStatement\<close>.
  \<open>getUID\<close> (a random UID or an error) and \<open>ofxgo.NewAcctType\<close> are parameters.
\<close>

record bankAccount =
  AccountID :: string
  AccountDescription :: string
  DirectConnect :: directConnect
  AccountType :: string
  RoutingNumber :: string

definition generateBankStatement ::
  "bankAccount \<Rightarrow> string \<Rightarrow> (error + string) \<Rightarrow> (string \<Rightarrow> error + nat) \<Rightarrow> Requestor" where
  "generateBankStatement b accountType getUID NewAcctType startT endT req =
     (case getUID of
        Inl err \<Rightarrow> (req, Some err)
      | Inr uid \<Rightarrow>
          (case NewAcctType accountType of
             Inl err \<Rightarrow> (req, Some err)
           | Inr accountTypeEnum \<Rightarrow>
               (req\<lparr>Bank := Bank req @
                   [\<lparr>TrnUID = uid, BankID = RoutingNumber b, AcctID = AccountID b,
                     AcctType = accountTypeEnum, DtStart = startT, DtEnd = endT,
                     Include = True\<rparr>]\<rparr>,
                None)))"

definition bankAccount_Statement ::
  "(error + string) \<Rightarrow> (string \<Rightarrow> error + nat) \<Rightarrow> bankAccount \<Rightarrow> Requestor" where
  "bankAccount_Statement RandomUID NewAcctType b =
     generateBankStatement b (AccountType b) RandomUID NewAcctType"

section \<open>Fetching transactions\<close>

definition ofxAuthFailed :: int where
  "ofxAuthFailed = 15500"

definition addSignonRequest :: "directConnect \<Rightarrow> Request \<Rightarrow> Request" where
  "addSignonRequest connector req =
     req\<lparr>ReqURL := ConnectorURL connector,
         Signon := \<lparr>ClientUID = ClientID (ConnectorConfig connector),
                    Org = InstOrg connector,
                    Fid = InstFID connector,
                    UserID = ConnectorUsername connector,
                    UserPass = ConnectorPassword connector\<rparr>\<rparr>"

text \<open>
  The loop \<open>for _, r := range requestors\<close> of \<open>fetchTransactions\<close>: each requestor in
  turn annotates the query; the first error ends the function.
\<close>

fun runStatements :: "Requestor list \<Rightarrow> time \<Rightarrow> time \<Rightarrow> Request \<Rightarrow> error + Request" where
  "runStatements [] startT endT query = Inr query"
| "runStatements (r # rs) startT endT query =
     (case r startT endT query of
        (query', Some err) \<Rightarrow> Inl err
      | (query', None) \<Rightarrow> runStatements rs startT endT query')"

text \<open>
  \<open>fetchTransactions\<close>. The result is Go's pair \<open>([]ledger.Transaction, error)\<close>, a nil
  slice being \<open>[]\<close>. \<open>doRequest\<close> and \<open>parse\<close> are the function arguments of the source;
  \<open>doRequest\<close> yields a response or an error (ofxgo's client returns a non-nil response
  whenever its error is nil). \<open>CodeMeaning\<close> is ofxgo's table of status codes, a
  parameter: the meaning of a code, or an error for a code it does not know.
\<close>

definition fetchTransactions ::
  "(int \<Rightarrow> error + string) \<Rightarrow> directConnect \<Rightarrow> time \<Rightarrow> time \<Rightarrow> Requestor list \<Rightarrow>
   (Request \<Rightarrow> error + Response) \<Rightarrow> (Response \<Rightarrow> 'txn list \<times> error option) \<Rightarrow>
   'txn list \<times> error option" where
  "fetchTransactions CodeMeaning connector startT endT requestors doRequest parse =
     (case runStatements requestors startT endT emptyRequest of
        Inl err \<Rightarrow> ([], Some err)
      | Inr query \<Rightarrow>
          if length (Bank query) = 0 \<and> length (CreditCard query) = 0
          then ([], Some (Errorf
                  ''Invalid statement query: does not contain any statement requests: %+v''
                  [OpaqueArg]))
          else
            (case doRequest (addSignonRequest connector query) of
               Inl err \<Rightarrow> ([], Some err)
             | Inr response \<Rightarrow>
                 if SignonStatusCode response \<noteq> 0 then
                   (if SignonStatusCode response = ofxAuthFailed then ([], Some ErrAuthFailed)
                    else
                      (case CodeMeaning (SignonStatusCode response) of
                         Inl err \<Rightarrow> ([], Some (Wrap err ''Failed to parse OFX response code''))
                       | Inr meaning \<Rightarrow>
                           ([], Some (Errorf
                              ''Nonzero signon status (%d: %s) with message: %s''
                              [IntArg (SignonStatusCode response), StrArg meaning,
                               StrArg (SignonStatusMessage response)]))))
                 else parse response))"

text \<open>
  \<open>Statement\<close> and \<open>Verify\<close>. \<open>newSimpleClient\<close> (another file of package \<open>direct\<close>) is a
  parameter: it yields the client's \<open>Request\<close> method or an error. \<open>now\<close> is
  \<open>time.Now()\<close>.
\<close>

definition Statement ::
  "(string \<Rightarrow> Config \<Rightarrow> error + (Request \<Rightarrow> error + Response)) \<Rightarrow> (int \<Rightarrow> error + string) \<Rightarrow>
   directConnect \<Rightarrow> time \<Rightarrow> time \<Rightarrow> Requestor list \<Rightarrow>
   (Response \<Rightarrow> 'txn list \<times> error option) \<Rightarrow> 'txn list \<times> error option" where
  "Statement newSimpleClient CodeMeaning connector startT endT requestors parser =
     (case newSimpleClient (ConnectorURL connector) (ConnectorConfig connector) of
        Inl err \<Rightarrow> ([], Some err)
      | Inr clientRequest \<Rightarrow>
          fetchTransactions CodeMeaning connector startT endT requestors clientRequest parser)"

definition Verify ::
  "(string \<Rightarrow> Config \<Rightarrow> error + (Request \<Rightarrow> error + Response)) \<Rightarrow> (int \<Rightarrow> error + string) \<Rightarrow>
   time \<Rightarrow> directConnect \<Rightarrow> Requestor \<Rightarrow>
   (Response \<Rightarrow> 'txn list \<times> error option) \<Rightarrow> error option" where
  "Verify newSimpleClient CodeMeaning now connector requestor parser =
     (let endT = now;
          startT = endT + (- 24 * Hour)
      in snd (Statement newSimpleClient CodeMeaning connector startT endT [requestor] parser))"

section \<open>The account handlers of the server\<close>

text \<open>
  A \<open>model.Account\<close> as the handlers see it: the ID, the fields a ledger account name can
  be derived from, the institution, and whether the account's type implements
  \<open>direct.Requestor\<close> (then with its \<open>Statement\<close> method). The type assertions
  \<open>Institution().(direct.Connector)\<close> and \<open>Institution().(web.PasswordConnector)\<close> become
  the cases of \<open>Institution\<close>; of a web connector only its password is read.
\<close>

datatype Institution =
    DirectConnector directConnect
  | WebPasswordConnector string
  | OtherInstitution

record Account =
  AcctIdent :: string
  AcctDescription :: string
  AcctKind :: string
  AcctInstitution :: Institution
  AcctRequestor :: "Requestor option"

text \<open>
  What a handler does with the gin context: \<open>abortWithClientError\<close> (a status and the
  error as JSON), \<open>AbortWithStatus\<close>, \<open>Status\<close>, or nothing at all (gin then answers 200).
\<close>

datatype Reply =
    AbortWithError nat error
  | AbortWithStatus nat
  | Status nat
  | NoReply


definition StatusBadRequest :: nat where
  "StatusBadRequest = 400"

definition StatusUnauthorized :: nat where
  "StatusUnauthorized = 401"

definition StatusNotFound :: nat where
  "StatusNotFound = 404"

definition StatusInternalServerError :: nat where
  "StatusInternalServerError = 500"

definition StatusNoContent :: nat where
  "StatusNoContent = 204"

text \<open>
  The collaborators of the handlers whose code is not in the sources, as parameters:
  \<open>client.UnmarshalAccount\<close>, \<open>client.ValidateAccount\<close>, the account store's \<open>Get\<close>
  (found or not, or an error) and \<open>Update\<close>, \<open>direct.Verify\<close> applied to the network
  (see \<open>Verify\<close> above for its code), \<open>direct.IsLocalhostTestURL\<close>,
  \<open>model.LedgerAccountName\<close>, the ledger's \<open>UpdateAccount\<close> and \<open>sync.LedgerFile\<close>.
  \<open>'s\<close> is the account store, \<open>'l\<close> the ledger, \<open>'f\<close> the ledger file on disk.
\<close>

record ('s, 'l, 'f) ServerDeps =
  UnmarshalAccount :: "string \<Rightarrow> error + Account"
  ValidateAccount :: "Account \<Rightarrow> error option"
  StoreGet :: "'s \<Rightarrow> string \<Rightarrow> error + Account option"
  StoreUpdate :: "'s \<Rightarrow> string \<Rightarrow> Account \<Rightarrow> 's \<times> error option"
  DirectVerify :: "directConnect \<Rightarrow> Requestor \<Rightarrow> error option"
  IsLocalhostTest :: "string \<Rightarrow> bool"
  LedgerAccountName :: "Account \<Rightarrow> string"
  LedgerUpdateAccount :: "string \<Rightarrow> string \<Rightarrow> 'l \<Rightarrow> 'l \<times> error option"
  SyncLedgerFile :: "'l \<Rightarrow> 'f \<Rightarrow> 'f \<times> error option"

text \<open>
  \<open>readAndValidateAccount\<close>. \<open>body\<close> is the result of \<open>ioutil.ReadAll\<close> on the request
  body. \<open>SetPassword\<close> writes through the connector pointer the account holds, so the
  account returned carries the password taken from the store. The Go function returns
  the account together with the validation error; its callers read the account only
  when the error is nil.
\<close>

definition readAndValidateAccount ::
  "('s, 'l, 'f) ServerDeps \<Rightarrow> error + string \<Rightarrow> 's \<Rightarrow> error + Account" where
  "readAndValidateAccount deps body accountStore =
     (case body of
        Inl err \<Rightarrow> Inl err
      | Inr b \<Rightarrow>
          (case UnmarshalAccount deps b of
             Inl err \<Rightarrow> Inl err
           | Inr account \<Rightarrow>
               (let filled =
                  (case AcctInstitution account of
                     DirectConnector connector \<Rightarrow>
                       if ConnectorPassword connector = '''' then
                         (case StoreGet deps accountStore (AcctIdent account) of
                            Inl err \<Rightarrow> Inl err
                          | Inr None \<Rightarrow> Inr account
                          | Inr (Some currentAccount) \<Rightarrow>
                              (case AcctInstitution currentAccount of
                                 DirectConnector currentConn \<Rightarrow>
                                   Inr (account\<lparr>AcctInstitution := DirectConnector
                                          (connector\<lparr>ConnectorPassword :=
                                             ConnectorPassword currentConn\<rparr>)\<rparr>)
                               | _ \<Rightarrow> Inr account))
                       else Inr account
                   | WebPasswordConnector password \<Rightarrow>
                       if password = '''' then
                         (case StoreGet deps accountStore (AcctIdent account) of
                            Inl err \<Rightarrow> Inl err
                          | Inr None \<Rightarrow> Inr account
                          | Inr (Some currentAccount) \<Rightarrow>
                              (case AcctInstitution currentAccount of
                                 WebPasswordConnector currentPassword \<Rightarrow>
                                   Inr (account\<lparr>AcctInstitution :=
                                          WebPasswordConnector currentPassword\<rparr>)
                               | _ \<Rightarrow> Inr account))
                       else Inr account
                   | OtherInstitution \<Rightarrow> Inr account)
                in case filled of
                     Inl err \<Rightarrow> Inl err
                   | Inr account' \<Rightarrow>
                       (case ValidateAccount deps account' of
                          Some err \<Rightarrow> Inl err
                        | None \<Rightarrow> Inr account'))))"




definition errPasswordRequired :: error where
  "errPasswordRequired = ErrorsNew ''Institution password is required''"

text \<open>\<open>verifyAccount\<close>: the handler of \<open>/direct/verifyAccount\<close>.\<close>

definition verifyAccount ::
  "('s, 'l, 'f) ServerDeps \<Rightarrow> error + string \<Rightarrow> 's \<Rightarrow> Reply" where
  "verifyAccount deps body accountStore =
     (case readAndValidateAccount deps body accountStore of
        Inl err \<Rightarrow> AbortWithError StatusBadRequest err
      | Inr account \<Rightarrow>
          (case AcctInstitution account of
             DirectConnector connector \<Rightarrow>
               (case AcctRequestor account of
                  None \<Rightarrow>
                    AbortWithError StatusBadRequest
                      (Errorf ''Cannot verify account: account is invalid type: %T'' [OpaqueArg])
                | Some requestor \<Rightarrow>
                    (case DirectVerify deps connector requestor of
                       Some err \<Rightarrow>
                         if err = ErrAuthFailed then AbortWithError StatusUnauthorized err
                         else AbortWithError StatusInternalServerError err
                     | None \<Rightarrow>
                         if ConnectorPassword connector = '''' then
                           (case StoreGet deps accountStore (AcctIdent account) of
                              Inl err \<Rightarrow> AbortWithError StatusInternalServerError err
                            | Inr current \<Rightarrow>
                                if \<not> IsLocalhostTest deps (ConnectorURL connector) then
                                  (case current of
                                     None \<Rightarrow> AbortWithError StatusBadRequest errPasswordRequired
                                   | Some currentAccount \<Rightarrow>
                                       (let pass =
                                          (case AcctInstitution currentAccount of
                                             DirectConnector currentConnector \<Rightarrow>
                                               ConnectorPassword currentConnector
                                           | _ \<Rightarrow> '''')
                                        in if pass = ''''
                                           then AbortWithError StatusBadRequest errPasswordRequired
                                           else Status StatusNoContent))
                                else Status StatusNoContent)
                         else Status StatusNoContent))
           | _ \<Rightarrow>
               AbortWithError StatusBadRequest
                 (ErrorsNew ''Cannot verify account: no direct connect details'')))"

text \<open>
  The state \<open>updateAccount\<close> works on: the account store, the in-memory ledger, the ledger
  file, and a log of the mutating calls the handler has made, in order.
\<close>

datatype Call =
    CallStoreUpdate string
  | CallLedgerUpdateAccount string string
  | CallLedgerFile

record ('s, 'l, 'f) ServerState =
  AccountStore :: 's
  Ledger :: 'l
  LedgerFile :: 'f
  Calls :: "Call list"

text \<open>\<open>updateAccount\<close>: the handler of \<open>/updateAccount\<close>.\<close>

definition updateAccount ::
  "('s, 'l, 'f) ServerDeps \<Rightarrow> error + string \<Rightarrow> ('s, 'l, 'f) ServerState \<Rightarrow>
   ('s, 'l, 'f) ServerState \<times> Reply" where
  "updateAccount deps body st =
     (case readAndValidateAccount deps body (AccountStore st) of
        Inl err \<Rightarrow> (st, AbortWithError StatusBadRequest err)
      | Inr account \<Rightarrow>
          (case StoreGet deps (AccountStore st) (AcctIdent account) of
             Inl err \<Rightarrow> (st, AbortWithError StatusInternalServerError err)
           | Inr None \<Rightarrow> (st, AbortWithStatus StatusNotFound)
           | Inr (Some currentAccount) \<Rightarrow>
               (case StoreUpdate deps (AccountStore st) (AcctIdent account) account of
                  (store', storeErr) \<Rightarrow>
                    (let st1 = st\<lparr>AccountStore := store',
                                  Calls := Calls st @ [CallStoreUpdate (AcctIdent account)]\<rparr>
                     in case storeErr of
                          Some err \<Rightarrow> (st1, AbortWithError StatusInternalServerError err)
                        | None \<Rightarrow>
                            (let oldAccountName = LedgerAccountName deps currentAccount;
                                 newAccountName = LedgerAccountName deps account
                             in if oldAccountName \<noteq> newAccountName then
                                  (case LedgerUpdateAccount deps oldAccountName newAccountName
                                          (Ledger st1) of
                                     (ldg', ldgErr) \<Rightarrow>
                                       (let st2 = st1\<lparr>Ledger := ldg',
                                                      Calls := Calls st1 @
                                                        [CallLedgerUpdateAccount oldAccountName
                                                           newAccountName]\<rparr>
                                        in case ldgErr of
                                             Some err \<Rightarrow>
                                               (st2, AbortWithError StatusInternalServerError err)
                                           | None \<Rightarrow>
                                               (case SyncLedgerFile deps (Ledger st2)
                                                       (LedgerFile st2) of
                                                  (file', fileErr) \<Rightarrow>
                                                    (let st3 = st2\<lparr>LedgerFile := file',
                                                                   Calls := Calls st2 @
                                                                     [CallLedgerFile]\<rparr>
                                                     in case fileErr of
                                                          Some err \<Rightarrow>
                                                            (st3, AbortWithError
                                                               StatusInternalServerError err)
                                                        | None \<Rightarrow> (st3, NoReply)))))
                                else (st1, NoReply))))))"

section \<open>The background sync task of the server\<close>

text \<open>
  The goroutine that \<open>Run\<close> starts when \<open>autoSync\<close> is set. \<open>runSync\<close> calls \<open>sync.Sync\<close>,
  whose code is not among the sources; the goroutine only looks at whether the error is
  nil and whether it is of type \<open>ledger.Error\<close>, which the source's comment calls the
  partial error. After the first sync the goroutine waits on two channels: \<open>done\<close>, and
  the ticker, each tick starting one more \<open>runSync\<close>. A run of the goroutine is given by
  the result of the first sync and by the events it then receives in order, every tick
  with the result of the sync started at it.
\<close>

datatype SyncError = LedgerError | OtherError

datatype Event = Done | Tick "SyncError option"

text \<open>
  The result: how many times \<open>runSync\<close> was called, and the error sent on \<open>errs\<close> (which
  makes \<open>Run\<close> return), if any. A list of events that ends while the loop is still
  waiting stands for a goroutine that is still running.
\<close>

fun tickerLoop :: "Event list \<Rightarrow> nat \<times> SyncError option" where
  "tickerLoop [] = (0, None)"
| "tickerLoop (Done # events) = (0, None)"
| "tickerLoop (Tick (Some err) # events) = (1, Some err)"
| "tickerLoop (Tick None # events) =
     (case tickerLoop events of (n, sent) \<Rightarrow> (Suc n, sent))"

definition syncGoroutine :: "SyncError option \<Rightarrow> Event list \<Rightarrow> nat \<times> SyncError option" where
  "syncGoroutine first events =
     (case first of
        Some err \<Rightarrow>
          if err \<noteq> LedgerError then (1, Some err)
          else (case tickerLoop events of (n, sent) \<Rightarrow> (Suc n, sent))
      | None \<Rightarrow> (case tickerLoop events of (n, sent) \<Rightarrow> (Suc n, sent)))"

section \<open>The ledger, the rule engine and reconciliation, after the spec\<close>

text \<open>
  Packages \<open>ledger\<close>, \<open>rules\<close> and \<open>sync\<close> of this repository are not among the
  sources. Every definition of this section is written from sections 3 and 4 of the
  spec and says so.
\<close>

text \<open>
  Modelled from the spec: the posting of section 3 (package \<open>ledger\<close> is missing): a
  target ledger account name, a signed amount, counted in the smallest currency unit,
  and a currency.
\<close>

record Posting =
  PostAccount :: string
  PostAmount :: int
  PostCurrency :: string

text \<open>
  Modelled from the spec: the transaction of section 3 (package \<open>ledger\<close> is missing): a
  date, a payee, an external identifier when the source protocol supplied one, a comment
  and an ordered sequence of postings. The ledger is a sequence of transactions.
\<close>

record Transaction =
  TxDate :: int
  TxPayee :: string
  TxExternalID :: "string option"
  TxComment :: string
  TxPostings :: "Posting list"

text \<open>
  Modelled from the spec: two failures of the taxonomy of section 7 (packages \<open>ledger\<close>
  and \<open>sync\<close> are missing), \<open>NotFoundError\<close> of \<open>UpdateAccountName\<close> and \<open>ParseError\<close> of
  \<open>Reconcile\<close>.
\<close>

datatype LedgerFailure = NotFoundError | ParseError

text \<open>
  Modelled from the spec: whether an account name has postings in the ledger, the
  condition of \<open>UpdateAccountName\<close> in section 4.1 (package \<open>ledger\<close> is missing).
\<close>

definition hasPostings :: "string \<Rightarrow> Transaction list \<Rightarrow> bool" where
  "hasPostings name ledger =
     list_ex (\<lambda>tx. list_ex (\<lambda>p. PostAccount p = name) (TxPostings tx)) ledger"

text \<open>
  Modelled from the spec: the renaming of one posting and of the postings of one
  transaction, the steps of \<open>UpdateAccountName\<close> in section 4.1 (package \<open>ledger\<close> is
  missing).
\<close>

definition renamePosting :: "string \<Rightarrow> string \<Rightarrow> Posting \<Rightarrow> Posting" where
  "renamePosting old new p = (if PostAccount p = old then p\<lparr>PostAccount := new\<rparr> else p)"

definition renameTransaction :: "string \<Rightarrow> string \<Rightarrow> Transaction \<Rightarrow> Transaction" where
  "renameTransaction old new tx = tx\<lparr>TxPostings := map (renamePosting old new) (TxPostings tx)\<rparr>"

text \<open>
  Modelled from the spec: \<open>UpdateAccountName(old, new)\<close> of section 4.1 (the ledger's
  \<open>UpdateAccount\<close> that the handler \<open>updateAccount\<close> calls; package \<open>ledger\<close> is missing).
  It renames a ledger account across all historical postings and fails with
  \<open>NotFoundError\<close> if \<open>old\<close> has no postings. The ledger is passed in and returned, with
  the failure or none.
\<close>

definition UpdateAccountName ::
  "string \<Rightarrow> string \<Rightarrow> Transaction list \<Rightarrow> Transaction list \<times> LedgerFailure option" where
  "UpdateAccountName old new ledger =
     (if hasPostings old ledger then (map (renameTransaction old new) ledger, None)
      else (ledger, Some NotFoundError))"

text \<open>
  Modelled from the spec: the rule of section 3 (package \<open>rules\<close> is missing): a match
  predicate on the payee, given by its pattern, plus the account and/or the comment to
  assign on a match. \<open>assign\<close> is what a matching rule does to the current assignment,
  a pair of account and comment.
\<close>

record Rule =
  RulePattern :: string
  RuleAccount :: "string option"
  RuleComment :: "string option"

definition assign :: "Rule \<Rightarrow> string \<times> string \<Rightarrow> string \<times> string" where
  "assign r current =
     (case RuleAccount r of Some a \<Rightarrow> a | None \<Rightarrow> fst current,
      case RuleComment r of Some c \<Rightarrow> c | None \<Rightarrow> snd current)"

text \<open>
  Modelled from the spec: \<open>Categorize\<close> of section 4.2 (package \<open>rules\<close> is missing). It
  iterates the rules in declared order, the first predicate match determines the
  account and/or the comment, and no match leaves the assignment it was given (the
  default category) as it is. How a pattern matches a description (case-insensitive
  substring or pattern) is the parameter \<open>matches\<close>.
\<close>

fun Categorize ::
  "(string \<Rightarrow> string \<Rightarrow> bool) \<Rightarrow> Rule list \<Rightarrow> string \<Rightarrow> string \<times> string \<Rightarrow> string \<times> string" where
  "Categorize matches [] payee current = current"
| "Categorize matches (r # rules) payee current =
     (if matches (RulePattern r) payee then assign r current
      else Categorize matches rules payee current)"

text \<open>
  Modelled from the spec: a raw transaction as \<open>Reconcile\<close> of section 4.3 receives it
  (package \<open>sync\<close> is missing): a payee, a date and an amount that may be missing, and an
  external ID if the source protocol provided one. \<open>ReconcileEnv\<close> holds what the spec
  leaves to the surroundings: the rule engine's matcher and rules, the name of the
  default category and the currency of the postings.
\<close>

record RawTransaction =
  RawDate :: "int option"
  RawPayee :: string
  RawAmount :: "int option"
  RawExternalID :: "string option"

record ReconcileEnv =
  Matches :: "string \<Rightarrow> string \<Rightarrow> bool"
  Rules :: "Rule list"
  UnknownCategory :: string
  Currency :: string

text \<open>
  Modelled from the spec: the deduplication of section 4.3, step 2 (package \<open>sync\<close> is
  missing). A raw transaction with an external ID is a duplicate when a ledger
  transaction carries that ID and has a posting to this account; one without is a
  duplicate when a ledger transaction has the same date, the same payee and a posting
  to this account with the same signed amount.
\<close>

definition isDuplicate ::
  "Transaction list \<Rightarrow> string \<Rightarrow> int \<Rightarrow> string \<Rightarrow> int \<Rightarrow> string option \<Rightarrow> bool" where
  "isDuplicate ledger account date payee amount externalID =
     (case externalID of
        Some i \<Rightarrow>
          list_ex (\<lambda>tx. TxExternalID tx = Some i
                      \<and> list_ex (\<lambda>p. PostAccount p = account) (TxPostings tx)) ledger
      | None \<Rightarrow>
          list_ex (\<lambda>tx. TxDate tx = date \<and> TxPayee tx = payee
                      \<and> list_ex (\<lambda>p. PostAccount p = account \<and> PostAmount p = amount)
                            (TxPostings tx)) ledger)"

text \<open>
  Modelled from the spec: the transaction built for a raw transaction that is no
  duplicate, section 4.3, step 3 (package \<open>sync\<close> is missing). Its first posting is the
  account's ledger name with the signed amount; its second posting and its comment are
  the rule engine's output, the second posting balancing the first.
\<close>

definition buildTransaction ::
  "ReconcileEnv \<Rightarrow> string \<Rightarrow> int \<Rightarrow> string \<Rightarrow> int \<Rightarrow> string option \<Rightarrow> Transaction" where
  "buildTransaction env account date payee amount externalID =
     (let categorized = Categorize (Matches env) (Rules env) payee (UnknownCategory env, '''')
      in \<lparr>TxDate = date, TxPayee = payee, TxExternalID = externalID,
          TxComment = snd categorized,
          TxPostings =
            [\<lparr>PostAccount = account, PostAmount = amount, PostCurrency = Currency env\<rparr>,
             \<lparr>PostAccount = fst categorized, PostAmount = - amount,
              PostCurrency = Currency env\<rparr>]\<rparr>)"

text \<open>
  Modelled from the spec: \<open>Reconcile\<close> of section 4.3 (package \<open>sync\<close> is missing).
  \<open>reconcileEach\<close> goes through the batch: a raw transaction without a date or without
  an amount is reported with \<open>ParseError\<close> and the batch goes on, a duplicate is skipped,
  every other one is built. \<open>Reconcile\<close> returns the new transactions in chronological
  order (a stable sort by date) with the failures; the ledger is only read.
\<close>

fun reconcileEach ::
  "ReconcileEnv \<Rightarrow> Transaction list \<Rightarrow> string \<Rightarrow> RawTransaction list \<Rightarrow>
   Transaction list \<times> (RawTransaction \<times> LedgerFailure) list" where
  "reconcileEach env ledger account [] = ([], [])"
| "reconcileEach env ledger account (raw # raws) =
     (case reconcileEach env ledger account raws of
        (new, failures) \<Rightarrow>
          (case RawDate raw of
             None \<Rightarrow> (new, (raw, ParseError) # failures)
           | Some date \<Rightarrow>
               (case RawAmount raw of
                  None \<Rightarrow> (new, (raw, ParseError) # failures)
                | Some amount \<Rightarrow>
                    if isDuplicate ledger account date (RawPayee raw) amount (RawExternalID raw)
                    then (new, failures)
                    else (buildTransaction env account date (RawPayee raw) amount
                            (RawExternalID raw) # new, failures))))"

definition Reconcile ::
  "ReconcileEnv \<Rightarrow> Transaction list \<Rightarrow> string \<Rightarrow> RawTransaction list \<Rightarrow>
   Transaction list \<times> (RawTransaction \<times> LedgerFailure) list" where
  "Reconcile env existingLedger account rawTransactions =
     (case reconcileEach env existingLedger account rawTransactions of
        (new, failures) \<Rightarrow> (sort_key TxDate new, failures))"

section \<open>Example inputs\<close>

text \<open>
  A stand-in for the Unicode path of \<open>strings.ToUpper\<close> that knows one letter: e-acute
  (bytes C3 A9 in UTF-8), whose capital is C3 89.
\<close>

definition exampleUnicodeUpper :: "string \<Rightarrow> string" where
  "exampleUnicodeUpper s = (if s = [CHR 0xC3, CHR 0xA9] then [CHR 0xC3, CHR 0x89] else s)"

text \<open>
  Collaborators of \<open>ValidateConnector\<close> for examples: every institution passes
  \<open>ValidateInstitution\<close>, two URLs parse (all others are malformed), no URL is a localhost
  test URL, and \<open>102\<close> is the one OFX version.
\<close>

definition exampleConnectorDeps :: ConnectorDeps where
  "exampleConnectorDeps =
     \<lparr>ValidateInstitution = (\<lambda>c. None),
      urlParse = (\<lambda>s. if s = ''https://bank.example/ofx''
                       then Inr \<lparr>Scheme = ''https'', Hostname = ''bank.example''\<rparr>
                     else if s = ''http://bank.example/ofx''
                       then Inr \<lparr>Scheme = ''http'', Hostname = ''bank.example''\<rparr>
                     else Inl (ErrorsNew ''missing protocol scheme'')),
      IsLocalhostTestURL = (\<lambda>s. False),
      NewOfxVersion = (\<lambda>v. if v = ''102'' then None
                            else Some (ErrorsNew ''Invalid OfxVersion''))\<rparr>"

definition goodConnector :: directConnect where
  "goodConnector =
     \<lparr>InstDescription = ''Example Bank'', InstFID = ''1234'', InstOrg = ''EXB'',
      ConnectorURL = ''https://bank.example/ofx'', ConnectorUsername = ''alice'',
      ConnectorPassword = ''secret'',
      ConnectorConfig = \<lparr>AppID = ''QWIN'', AppVersion = ''2500'', ClientID = '''',
                          OFXVersion = ''102''\<rparr>\<rparr>"

definition badConnector :: directConnect where
  "badConnector =
     \<lparr>InstDescription = ''Example Bank'', InstFID = ''1234'', InstOrg = ''EXB'',
      ConnectorURL = ''http://bank.example/ofx'', ConnectorUsername = '''',
      ConnectorPassword = '''',
      ConnectorConfig = \<lparr>AppID = '''', AppVersion = '''', ClientID = '''',
                          OFXVersion = ''9''\<rparr>\<rparr>"

text \<open>
  A checking account at the example bank, and a stand-in for the bank's OFX server: it
  signs \<open>alice\<close> on with the password \<open>secret\<close> and \<open>guest\<close> with any password
  (status 0), reports status 15501 for the user \<open>locked\<close>, and rejects everyone else with
  status 15500. The example parser
  returns the payload as the one transaction.
\<close>

definition exampleBank :: bankAccount where
  "exampleBank =
     \<lparr>AccountID = ''1234'', AccountDescription = ''Checking'', DirectConnect = goodConnector,
      AccountType = ''CHECKING'', RoutingNumber = ''0550''\<rparr>"

definition exampleNewAcctType :: "string \<Rightarrow> error + nat" where
  "exampleNewAcctType s =
     (if s = ''CHECKING'' then Inr 1 else if s = ''SAVINGS'' then Inr 2
      else Inl (ErrorsNew ''Invalid AcctType''))"

definition exampleRequestor :: Requestor where
  "exampleRequestor = bankAccount_Statement (Inr ''uid-1'') exampleNewAcctType exampleBank"

definition exampleServer :: "Request \<Rightarrow> error + Response" where
  "exampleServer q =
     (if UserID (Signon q) = ''alice'' \<and> UserPass (Signon q) = ''secret''
      then Inr \<lparr>SignonStatusCode = 0, SignonStatusMessage = ''OK'', Payload = ''STMT''\<rparr>
      else if UserID (Signon q) = ''guest''
      then Inr \<lparr>SignonStatusCode = 0, SignonStatusMessage = ''OK'', Payload = ''''\<rparr>
      else if UserID (Signon q) = ''locked''
      then Inr \<lparr>SignonStatusCode = 15501, SignonStatusMessage = ''In use'', Payload = ''''\<rparr>
      else Inr \<lparr>SignonStatusCode = 15500, SignonStatusMessage = ''Signon invalid'',
                Payload = ''''\<rparr>)"

definition exampleCodeMeaning :: "int \<Rightarrow> error + string" where
  "exampleCodeMeaning code =
     (if code = 15501 then Inr ''Customer account already in use''
      else Inl (ErrorsNew ''Unknown status code''))"

definition exampleParse :: "Response \<Rightarrow> string list \<times> error option" where
  "exampleParse r = ([Payload r], None)"

definition wrongPasswordConnector :: directConnect where
  "wrongPasswordConnector = goodConnector\<lparr>ConnectorPassword := ''wrong''\<rparr>"

definition lockedConnector :: directConnect where
  "lockedConnector = goodConnector\<lparr>ConnectorUsername := ''locked''\<rparr>"

definition exampleQuery :: Request where
  "exampleQuery =
     emptyRequest\<lparr>Bank :=
       [\<lparr>TrnUID = ''uid-1'', BankID = ''0550'', AcctID = ''1234'', AcctType = 1,
         DtStart = 0, DtEnd = 10, Include = True\<rparr>]\<rparr>"

text \<open>
  A server for examples. The account store is an association list, the ledger is the
  list of the account names of its postings and the ledger file holds a copy of it.
  The ledger account name of an account is its kind, description and ID joined by
  colons. \<open>direct.Verify\<close> runs against the example bank server at time 100 hours.
  The store holds \<open>storedAccount\<close>; the request bodies the example \<open>UnmarshalAccount\<close>
  understands are named after what they submit.
\<close>

definition exampleNewSimpleClient ::
  "string \<Rightarrow> Config \<Rightarrow> error + (Request \<Rightarrow> error + Response)" where
  "exampleNewSimpleClient url config = Inr exampleServer"

definition exampleLedgerUpdateAccount ::
  "string \<Rightarrow> string \<Rightarrow> string list \<Rightarrow> string list \<times> error option" where
  "exampleLedgerUpdateAccount old new ldg =
     (if old \<in> set ldg then (map (\<lambda>a. if a = old then new else a) ldg, None)
      else (ldg, Some (ErrorsNew ''account not found'')))"

definition storedAccount :: Account where
  "storedAccount =
     \<lparr>AcctIdent = ''1234'', AcctDescription = ''Checking'', AcctKind = ''assets'',
      AcctInstitution = DirectConnector goodConnector,
      AcctRequestor = Some exampleRequestor\<rparr>"

definition guestConnector :: directConnect where
  "guestConnector = goodConnector\<lparr>ConnectorUsername := ''guest'', ConnectorPassword := ''''\<rparr>"

definition exampleUnmarshal :: "string \<Rightarrow> error + Account" where
  "exampleUnmarshal b =
     (if b = ''same'' then
        Inr (storedAccount\<lparr>AcctInstitution :=
               DirectConnector (goodConnector\<lparr>ConnectorPassword := ''''\<rparr>)\<rparr>)
      else if b = ''renamed'' then Inr (storedAccount\<lparr>AcctDescription := ''Joint''\<rparr>)
      else if b = ''wrong password'' then
        Inr (storedAccount\<lparr>AcctInstitution := DirectConnector wrongPasswordConnector\<rparr>)
      else if b = ''locked'' then
        Inr (storedAccount\<lparr>AcctInstitution := DirectConnector lockedConnector\<rparr>)
      else if b = ''guest'' then
        Inr (storedAccount\<lparr>AcctIdent := ''9999'',
                           AcctInstitution := DirectConnector guestConnector\<rparr>)
      else if b = ''web'' then
        Inr (storedAccount\<lparr>AcctInstitution := WebPasswordConnector ''pw''\<rparr>)
      else if b = ''no requestor'' then Inr (storedAccount\<lparr>AcctRequestor := None\<rparr>)
      else if b = ''no id'' then Inr (storedAccount\<lparr>AcctIdent := ''''\<rparr>)
      else if b = ''no description'' then
        Inr (storedAccount\<lparr>AcctDescription := '''', AcctInstitution :=
               DirectConnector (goodConnector\<lparr>ConnectorPassword := ''''\<rparr>)\<rparr>)
      else Inl (ErrorsNew ''unexpected end of JSON input''))"

definition exampleServerDeps ::
  "((string \<times> Account) list, string list, string list) ServerDeps" where
  "exampleServerDeps =
     \<lparr>UnmarshalAccount = exampleUnmarshal,
      ValidateAccount = (\<lambda>a. if AcctIdent a = ''''
                              then Some (ErrorsNew ''Account ID must not be empty'')
                            else if AcctDescription a = ''''
                              then Some (ErrorsNew ''Account description must not be empty'')
                            else None),
      StoreGet = (\<lambda>store ident. Inr (map_of store ident)),
      StoreUpdate = (\<lambda>store ident a. ((ident, a) # store, None)),
      DirectVerify = (\<lambda>connector requestor.
        Verify exampleNewSimpleClient exampleCodeMeaning (100 * Hour) connector requestor
          exampleParse),
      IsLocalhostTest = (\<lambda>url. False),
      LedgerAccountName = (\<lambda>a. AcctKind a @ '':'' @ AcctDescription a @ '':'' @ AcctIdent a),
      LedgerUpdateAccount = exampleLedgerUpdateAccount,
      SyncLedgerFile = (\<lambda>ldg file. (ldg, None))\<rparr>"

definition exampleState ::
  "((string \<times> Account) list, string list, string list) ServerState" where
  "exampleState =
     \<lparr>AccountStore = [(''1234'', storedAccount)],
      Ledger = [''assets:Checking:1234'', ''expenses:food''],
      LedgerFile = [''assets:Checking:1234'', ''expenses:food''],
      Calls = []\<rparr>"


text \<open>The same server with an account store whose \<open>Get\<close> fails.\<close>

definition failingStoreDeps ::
  "((string \<times> Account) list, string list, string list) ServerDeps" where
  "failingStoreDeps =
     exampleServerDeps\<lparr>StoreGet := (\<lambda>store ident. Inl (ErrorsNew ''store is unreadable''))\<rparr>"

text \<open>
  A matcher for examples: the pattern \<open>.*\<close> matches every description, any other
  pattern matches as a case-insensitive substring (on ASCII letters).
\<close>

fun hasPrefix :: "string \<Rightarrow> string \<Rightarrow> bool" where
  "hasPrefix [] s = True"
| "hasPrefix (c # cs) [] = False"
| "hasPrefix (c # cs) (d # ds) = (c = d \<and> hasPrefix cs ds)"

fun containsSubstring :: "string \<Rightarrow> string \<Rightarrow> bool" where
  "containsSubstring [] sub = (sub = [])"
| "containsSubstring (c # cs) sub = (hasPrefix sub (c # cs) \<or> containsSubstring cs sub)"

definition exampleMatches :: "string \<Rightarrow> string \<Rightarrow> bool" where
  "exampleMatches pattern description =
     (pattern = ''.*''
      \<or> containsSubstring (map upperByte description) (map upperByte pattern))"

text \<open>
  The rule set of the spec's example (section 8): \<open>grocery\<close> assigns \<open>Food\<close>, then \<open>.*\<close>
  assigns \<open>Other\<close>; before them a rule for rent that does not match a grocery store.
\<close>

definition ruleRent :: Rule where
  "ruleRent = \<lparr>RulePattern = ''rent'', RuleAccount = Some ''Housing'', RuleComment = None\<rparr>"

definition ruleGrocery :: Rule where
  "ruleGrocery = \<lparr>RulePattern = ''grocery'', RuleAccount = Some ''Food'', RuleComment = None\<rparr>"

definition ruleAny :: Rule where
  "ruleAny = \<lparr>RulePattern = ''.*'', RuleAccount = Some ''Other'', RuleComment = None\<rparr>"

text \<open>
  A ledger with one transaction between the checking account and food, and a batch of
  three raw transactions for the checking account: one with an external ID, one
  without, and one without a date.
\<close>

definition exampleLedger :: "Transaction list" where
  "exampleLedger =
     [\<lparr>TxDate = 1, TxPayee = ''Corner Shop'', TxExternalID = None, TxComment = '''',
       TxPostings =
         [\<lparr>PostAccount = ''assets:checking'', PostAmount = - 500, PostCurrency = ''USD''\<rparr>,
          \<lparr>PostAccount = ''expenses:food'', PostAmount = 500, PostCurrency = ''USD''\<rparr>]\<rparr>]"

definition exampleEnv :: ReconcileEnv where
  "exampleEnv =
     \<lparr>Matches = exampleMatches, Rules = [ruleGrocery, ruleAny],
      UnknownCategory = ''unknown'', Currency = ''USD''\<rparr>"

definition exampleRaws :: "RawTransaction list" where
  "exampleRaws =
     [\<lparr>RawDate = Some 3, RawPayee = ''Grocery Store'', RawAmount = Some (- 1200),
       RawExternalID = Some ''T-1''\<rparr>,
      \<lparr>RawDate = Some 2, RawPayee = ''Landlord'', RawAmount = Some (- 90000),
       RawExternalID = None\<rparr>,
      \<lparr>RawDate = None, RawPayee = ''Broken'', RawAmount = Some 1, RawExternalID = None\<rparr>]"

text \<open>What the first run on the example batch yields, in chronological order.\<close>

definition exampleNew :: "Transaction list" where
  "exampleNew =
     [\<lparr>TxDate = 2, TxPayee = ''Landlord'', TxExternalID = None, TxComment = '''',
       TxPostings =
         [\<lparr>PostAccount = ''assets:checking'', PostAmount = - 90000, PostCurrency = ''USD''\<rparr>,
          \<lparr>PostAccount = ''Other'', PostAmount = 90000, PostCurrency = ''USD''\<rparr>]\<rparr>,
      \<lparr>TxDate = 3, TxPayee = ''Grocery Store'', TxExternalID = Some ''T-1'', TxComment = '''',
       TxPostings =
         [\<lparr>PostAccount = ''assets:checking'', PostAmount = - 1200, PostCurrency = ''USD''\<rparr>,
          \<lparr>PostAccount = ''Food'', PostAmount = 1200, PostCurrency = ''USD''\<rparr>]\<rparr>]"

section \<open>Properties of the account types\<close>

lemma upperByte_not_lower: "\<not> isLower (upperByte c)"
proof (cases "isLower c")
  case True
  then have "(of_char c :: nat) - 32 < 256" and "(of_char c :: nat) - 32 \<le> 90"
    by (auto simp: isLower_def)
  then show ?thesis using True
    by (simp add: upperByte_def isLower_def)
next
  case False
  then show ?thesis by (simp add: upperByte_def)
qed

lemma upperByte_ascii: "isASCII c \<Longrightarrow> isASCII (upperByte c)"
  unfolding upperByte_def isLower_def isASCII_def
  by auto

lemma ToUpper_ascii_idem:
  assumes "list_all isASCII s"
  shows "ToUpper U (ToUpper U s) = ToUpper U s"
proof -
  have a: "list_all isASCII (map upperByte s)"
    using assms by (induction s) (auto simp: upperByte_ascii)
  have b: "\<not> list_ex isLower (map upperByte s)"
    by (induction s) (auto simp: upperByte_not_lower)
  show ?thesis
    using assms a b by (simp add: ToUpper_def)
qed

lemma ToUpper_CHECKING: "ToUpper U ''CHECKING'' = ''CHECKING''"
  by (simp add: ToUpper_def isASCII_def isLower_def)

lemma ToUpper_SAVINGS: "ToUpper U ''SAVINGS'' = ''SAVINGS''"
  by (simp add: ToUpper_def isASCII_def isLower_def)

text \<open>On a string of ASCII bytes \<open>ToUpper\<close> upper-cases every byte.\<close>

lemma ToUpper_ascii:
  assumes "list_all isASCII s"
  shows "ToUpper U s = map upperByte s"
proof (cases "list_ex isLower s")
  case True
  with assms show ?thesis by (simp add: ToUpper_def)
next
  case False
  then have "map upperByte s = s"
    by (induction s) (simp_all add: upperByte_def)
  with assms False show ?thesis by (simp add: ToUpper_def)
qed

lemma upperByte_spellings:
  "map upperByte ''checking'' = ''CHECKING''"
  "map upperByte ''Checking'' = ''CHECKING''"
  "map upperByte ''savings'' = ''SAVINGS''"
  "map upperByte ''sAvInGs'' = ''SAVINGS''"
  by code_simp+

lemma ascii_spellings:
  "list_all isASCII ''checking''"
  "list_all isASCII ''Checking''"
  "list_all isASCII ''savings''"
  "list_all isASCII ''sAvInGs''"
  by (simp_all add: isASCII_def)

text \<open>
  C10. \<open>ParseAccountType\<close> and \<open>accountType.String\<close> form a round trip on \<open>CheckingType\<close>
  and \<open>SavingsType\<close>. \<open>ParseAccountType\<close> is case-insensitive: the lower-case and the
  capitalised spellings \<open>checking\<close>, \<open>Checking\<close>, \<open>savings\<close> and \<open>Savings\<close> parse to their
  types; every ASCII string whose letters, upper-cased, spell \<open>CHECKING\<close> or \<open>SAVINGS\<close>
  parses to that type; and two ASCII strings that differ only in the case of their
  letters parse to the same type. \<open>ParseAccountType\<close> of a string equals
  \<open>ParseAccountType\<close> of the upper-cased string: for a string of ASCII bytes this holds
  outright, and for any other string it needs of the standard library's Unicode path
  only that upper-casing its result changes nothing. Every input whose upper-cased
  form is neither \<open>CHECKING\<close> nor \<open>SAVINGS\<close> yields the zero \<open>accountType\<close>, and the
  \<open>String\<close> of the zero \<open>accountType\<close> is the empty string.
\<close>

theorem ParseAccountType_round_trip:
  "(a = CheckingType \<or> a = SavingsType \<longrightarrow>
      ParseAccountType U (accountType_String a) = a)
   \<and> ParseAccountType U ''checking'' = CheckingType
   \<and> ParseAccountType U ''Checking'' = CheckingType
   \<and> ParseAccountType U ''savings'' = SavingsType
   \<and> ParseAccountType U ''Savings'' = SavingsType
   \<and> (list_all isASCII s \<and> map upperByte s = ''CHECKING'' \<longrightarrow>
      ParseAccountType U s = CheckingType)
   \<and> (list_all isASCII s \<and> map upperByte s = ''SAVINGS'' \<longrightarrow>
      ParseAccountType U s = SavingsType)
   \<and> (list_all isASCII s \<and> list_all isASCII t \<and> map upperByte s = map upperByte t \<longrightarrow>
      ParseAccountType U s = ParseAccountType U t)
   \<and> ((\<not> list_all isASCII s \<longrightarrow> ToUpper U (U s) = U s) \<longrightarrow>
      ParseAccountType U s = ParseAccountType U (ToUpper U s))
   \<and> (ToUpper U s \<noteq> ''CHECKING'' \<and> ToUpper U s \<noteq> ''SAVINGS'' \<longrightarrow>
      ParseAccountType U s = 0)
   \<and> accountType_String 0 = ''''"
proof (intro conjI impI)
  assume "a = CheckingType \<or> a = SavingsType"
  then show "ParseAccountType U (accountType_String a) = a"
    by (auto simp: ParseAccountType_def accountType_String_def CheckingType_def
        SavingsType_def ToUpper_CHECKING ToUpper_SAVINGS)
next
  have "ToUpper U ''checking'' = ''CHECKING''"
    by (simp only: ToUpper_ascii [OF ascii_spellings(1)] upperByte_spellings(1))
  then show "ParseAccountType U ''checking'' = CheckingType"
    by (simp add: ParseAccountType_def accountType_String_def CheckingType_def)
next
  have "ToUpper U ''Checking'' = ''CHECKING''"
    by (simp only: ToUpper_ascii [OF ascii_spellings(2)] upperByte_spellings(2))
  then show "ParseAccountType U ''Checking'' = CheckingType"
    by (simp add: ParseAccountType_def accountType_String_def CheckingType_def)
next
  have "ToUpper U ''savings'' = ''SAVINGS''"
    by (simp only: ToUpper_ascii [OF ascii_spellings(3)] upperByte_spellings(3))
  then show "ParseAccountType U ''savings'' = SavingsType"
    by (simp add: ParseAccountType_def accountType_String_def CheckingType_def
        SavingsType_def)
next
  have "list_all isASCII ''Savings''"
    by (simp add: isASCII_def)
  moreover have "map upperByte ''Savings'' = ''SAVINGS''"
    by code_simp
  ultimately have "ToUpper U ''Savings'' = ''SAVINGS''"
    by (simp only: ToUpper_ascii)
  then show "ParseAccountType U ''Savings'' = SavingsType"
    by (simp add: ParseAccountType_def accountType_String_def CheckingType_def
        SavingsType_def)
next
  assume "list_all isASCII s \<and> map upperByte s = ''CHECKING''"
  then have "ToUpper U s = ''CHECKING''"
    by (simp add: ToUpper_ascii)
  then show "ParseAccountType U s = CheckingType"
    by (simp add: ParseAccountType_def accountType_String_def CheckingType_def)
next
  assume "list_all isASCII s \<and> map upperByte s = ''SAVINGS''"
  then have "ToUpper U s = ''SAVINGS''"
    by (simp add: ToUpper_ascii)
  then show "ParseAccountType U s = SavingsType"
    by (simp add: ParseAccountType_def accountType_String_def CheckingType_def
        SavingsType_def)
next
  assume "list_all isASCII s \<and> list_all isASCII t \<and> map upperByte s = map upperByte t"
  then have "ToUpper U s = ToUpper U t"
    by (simp add: ToUpper_ascii)
  then show "ParseAccountType U s = ParseAccountType U t"
    by (simp add: ParseAccountType_def)
next
  assume h: "\<not> list_all isASCII s \<longrightarrow> ToUpper U (U s) = U s"
  have "ToUpper U (ToUpper U s) = ToUpper U s"
  proof (cases "list_all isASCII s")
    case True
    then show ?thesis by (rule ToUpper_ascii_idem)
  next
    case False
    with h show ?thesis by (simp add: ToUpper_def)
  qed
  then show "ParseAccountType U s = ParseAccountType U (ToUpper U s)"
    by (simp add: ParseAccountType_def)
next
  assume "ToUpper U s \<noteq> ''CHECKING'' \<and> ToUpper U s \<noteq> ''SAVINGS''"
  then show "ParseAccountType U s = 0"
    by (simp add: ParseAccountType_def accountType_String_def CheckingType_def SavingsType_def)
next
  show "accountType_String 0 = ''''"
    by (simp add: accountType_String_def CheckingType_def SavingsType_def)
qed

theorem ParseAccountType_round_trip_witness:
  "ParseAccountType exampleUnicodeUpper (accountType_String SavingsType) = SavingsType
   \<and> ParseAccountType exampleUnicodeUpper ''checking'' = CheckingType
   \<and> ParseAccountType exampleUnicodeUpper ''sAvInGs'' = SavingsType
   \<and> ParseAccountType exampleUnicodeUpper ''sAvInGs''
       = ParseAccountType exampleUnicodeUpper ''savings''
   \<and> ParseAccountType exampleUnicodeUpper [CHR 0xC3, CHR 0xA9]
       = ParseAccountType exampleUnicodeUpper
           (ToUpper exampleUnicodeUpper [CHR 0xC3, CHR 0xA9])
   \<and> ParseAccountType exampleUnicodeUpper [CHR 0xC3, CHR 0xA9] = 0"
proof -
  let ?s = "[CHR 0xC3, CHR 0xA9]"
  note T = ParseAccountType_round_trip [of SavingsType exampleUnicodeUpper ?s]
  note Tc = ParseAccountType_round_trip [of SavingsType exampleUnicodeUpper "''checking''"]
  note Ts = ParseAccountType_round_trip
    [of SavingsType exampleUnicodeUpper "''sAvInGs''" "''savings''"]
  have h1: "SavingsType = CheckingType \<or> SavingsType = SavingsType" by simp
  have up: "ToUpper exampleUnicodeUpper ?s = [CHR 0xC3, CHR 0x89]"
    by (simp add: ToUpper_def exampleUnicodeUpper_def isASCII_def)
  have h2: "\<not> list_all isASCII ?s \<longrightarrow>
      ToUpper exampleUnicodeUpper (exampleUnicodeUpper ?s) = exampleUnicodeUpper ?s"
    by (simp add: ToUpper_def exampleUnicodeUpper_def isASCII_def)
  have h3: "ToUpper exampleUnicodeUpper ?s \<noteq> ''CHECKING''
      \<and> ToUpper exampleUnicodeUpper ?s \<noteq> ''SAVINGS''"
    unfolding up by simp
  have c: "list_all isASCII ''checking'' \<and> map upperByte ''checking'' = ''CHECKING''"
    using ascii_spellings(1) upperByte_spellings(1) by blast
  have m: "list_all isASCII ''sAvInGs'' \<and> map upperByte ''sAvInGs'' = ''SAVINGS''"
    using ascii_spellings(4) upperByte_spellings(4) by blast
  have e: "list_all isASCII ''sAvInGs'' \<and> list_all isASCII ''savings''
      \<and> map upperByte ''sAvInGs'' = map upperByte ''savings''"
    using ascii_spellings(3,4) upperByte_spellings(3,4) by simp
  note r5 = T [THEN conjunct2, THEN conjunct2, THEN conjunct2, THEN conjunct2, THEN conjunct2]
  note r5c = Tc [THEN conjunct2, THEN conjunct2, THEN conjunct2, THEN conjunct2,
      THEN conjunct2]
  note r5s = Ts [THEN conjunct2, THEN conjunct2, THEN conjunct2, THEN conjunct2,
      THEN conjunct2]
  from T [THEN conjunct1, THEN mp, OF h1]
       r5c [THEN conjunct1, THEN mp, OF c]
       r5s [THEN conjunct2, THEN conjunct1, THEN mp, OF m]
       r5s [THEN conjunct2, THEN conjunct2, THEN conjunct1, THEN mp, OF e]
       r5 [THEN conjunct2, THEN conjunct2, THEN conjunct2, THEN conjunct1, THEN mp, OF h2]
       r5 [THEN conjunct2, THEN conjunct2, THEN conjunct2, THEN conjunct2, THEN conjunct1,
           THEN mp, OF h3]
  show ?thesis by blast
qed

section \<open>Properties of the direct connector\<close>

lemma fst_ErrIf: "fst (ErrIf b m errs) = errs @ (if b then [ErrorsNew m] else [])"
  by (simp add: ErrIf_def)

lemma snd_ErrIf: "snd (ErrIf b m errs) = b"
  by (simp add: ErrIf_def)

lemma AddErr_append: "AddErr e errs = errs @ (case e of None \<Rightarrow> [] | Some err \<Rightarrow> [err])"
  by (simp add: AddErr_def split: option.split)

lemma ErrOrNil_None: "ErrOrNil errs = None \<longleftrightarrow> errs = []"
  by (simp add: ErrOrNil_def)

lemma lists_error_ErrOrNil: "lists_error (ErrOrNil errs) e \<longleftrightarrow> e \<in> set errs"
  by (cases errs) (simp_all add: lists_error_def ErrOrNil_def)

text \<open>
  The accumulator of \<open>ValidateConnector\<close> at its end, for a connector that is not nil:
  one segment per statement of the source, in order.
\<close>

lemma ValidateConnector_Some:
  "ValidateConnector deps (Some c) =
     ErrOrNil
       ((case ValidateInstitution deps c of None \<Rightarrow> [] | Some err \<Rightarrow> [err])
        @ (if ConnectorURL c = '''' then [ErrorsNew ''Institution URL must not be empty'']
           else [])
        @ (case urlParse deps (ConnectorURL c) of
             Inl err \<Rightarrow> [Wrap err ''Institution URL is malformed'']
           | Inr u \<Rightarrow>
               if Scheme u \<noteq> ''https'' \<and> Hostname u \<noteq> ''localhost''
               then [ErrorsNew ''Institution URL is required to use HTTPS''] else [])
        @ (if ConnectorUsername c = ''''
           then [ErrorsNew ''Institution username must not be empty''] else [])
        @ (if ConnectorPassword c = '''' \<and> \<not> IsLocalhostTestURL deps (ConnectorURL c)
           then [ErrorsNew ''Institution password must not be empty''] else [])
        @ (if AppID (ConnectorConfig c) = ''''
           then [ErrorsNew ''Institution app ID must not be empty''] else [])
        @ (if AppVersion (ConnectorConfig c) = ''''
           then [ErrorsNew ''Institution app version must not be empty''] else [])
        @ (if OFXVersion (ConnectorConfig c) = ''''
           then [ErrorsNew ''Institution OFX version must not be empty'']
           else (case NewOfxVersion deps (OFXVersion (ConnectorConfig c)) of
                   None \<Rightarrow> [] | Some err \<Rightarrow> [err])))"
proof -
  have url: "(case urlParse deps (ConnectorURL c) of
        Inl err \<Rightarrow> AddErr (Some (Wrap err ''Institution URL is malformed'')) errs
      | Inr u \<Rightarrow> fst (ErrIf (Scheme u \<noteq> ''https'' \<and> Hostname u \<noteq> ''localhost'')
                       ''Institution URL is required to use HTTPS'' errs))
    = errs @ (case urlParse deps (ConnectorURL c) of
        Inl err \<Rightarrow> [Wrap err ''Institution URL is malformed'']
      | Inr u \<Rightarrow> if Scheme u \<noteq> ''https'' \<and> Hostname u \<noteq> ''localhost''
               then [ErrorsNew ''Institution URL is required to use HTTPS''] else [])" for errs
    by (cases "urlParse deps (ConnectorURL c)") (simp_all add: fst_ErrIf AddErr_append)
  show ?thesis
  proof (cases "OFXVersion (ConnectorConfig c) = ''''")
    case True
    then show ?thesis
      unfolding ValidateConnector_def Let_def option.case url
      by (simp only: fst_ErrIf snd_ErrIf AddErr_append append_assoc append_Nil if_True
          if_False simp_thms append_Nil2)
  next
    case False
    then show ?thesis
      unfolding ValidateConnector_def Let_def option.case url
      by (simp only: fst_ErrIf snd_ErrIf AddErr_append append_assoc append_Nil if_True
          if_False simp_thms append_Nil2)
  qed
qed

lemma ValidateConnector_nil:
  "lists_error (ValidateConnector deps None) (ErrorsNew ''Direct connect must not be empty'')"
  by (simp add: ValidateConnector_def lists_error_ErrOrNil fst_ErrIf)

lemma ValidateConnector_accepts:
  assumes "ValidateConnector deps connector = None"
  shows "\<exists>c u. connector = Some c
      \<and> urlParse deps (ConnectorURL c) = Inr u
      \<and> (Scheme u = ''https'' \<or> Hostname u = ''localhost'')
      \<and> ConnectorUsername c \<noteq> ''''
      \<and> (ConnectorPassword c \<noteq> '''' \<or> IsLocalhostTestURL deps (ConnectorURL c))
      \<and> AppID (ConnectorConfig c) \<noteq> ''''
      \<and> AppVersion (ConnectorConfig c) \<noteq> ''''
      \<and> OFXVersion (ConnectorConfig c) \<noteq> ''''
      \<and> NewOfxVersion deps (OFXVersion (ConnectorConfig c)) = None"
proof (cases connector)
  case None
  with assms show ?thesis
    by (simp add: ValidateConnector_def ErrOrNil_None fst_ErrIf)
next
  case (Some c)
  from assms have nil: "ValidateConnector deps (Some c) = None"
    by (simp add: Some)
  from nil [unfolded ValidateConnector_Some ErrOrNil_None append_is_Nil_conv]
  have 1: "(case urlParse deps (ConnectorURL c) of
             Inl err \<Rightarrow> [Wrap err ''Institution URL is malformed'']
           | Inr u \<Rightarrow>
               if Scheme u \<noteq> ''https'' \<and> Hostname u \<noteq> ''localhost''
               then [ErrorsNew ''Institution URL is required to use HTTPS''] else []) = []"
    and 2: "(if ConnectorUsername c = ''''
           then [ErrorsNew ''Institution username must not be empty''] else []) = []"
    and 3: "(if ConnectorPassword c = '''' \<and> \<not> IsLocalhostTestURL deps (ConnectorURL c)
           then [ErrorsNew ''Institution password must not be empty''] else []) = []"
    and 4: "(if AppID (ConnectorConfig c) = ''''
           then [ErrorsNew ''Institution app ID must not be empty''] else []) = []"
    and 5: "(if AppVersion (ConnectorConfig c) = ''''
           then [ErrorsNew ''Institution app version must not be empty''] else []) = []"
    and 6: "(if OFXVersion (ConnectorConfig c) = ''''
           then [ErrorsNew ''Institution OFX version must not be empty'']
           else (case NewOfxVersion deps (OFXVersion (ConnectorConfig c)) of
                   None \<Rightarrow> [] | Some err \<Rightarrow> [err])) = []"
    by blast+
  from 1 obtain u where u: "urlParse deps (ConnectorURL c) = Inr u"
    and https: "Scheme u = ''https'' \<or> Hostname u = ''localhost''"
    by (cases "urlParse deps (ConnectorURL c)") (auto split: if_splits)
  from 2 have user: "ConnectorUsername c \<noteq> ''''"
    by (simp split: if_splits)
  from 3 have pass: "ConnectorPassword c \<noteq> '''' \<or> IsLocalhostTestURL deps (ConnectorURL c)"
    by (simp split: if_splits)
  from 4 have app: "AppID (ConnectorConfig c) \<noteq> ''''"
    by (simp split: if_splits)
  from 5 have ver: "AppVersion (ConnectorConfig c) \<noteq> ''''"
    by (simp split: if_splits)
  from 6 have ofx: "OFXVersion (ConnectorConfig c) \<noteq> ''''
      \<and> NewOfxVersion deps (OFXVersion (ConnectorConfig c)) = None"
    by (simp split: if_splits option.splits)
  from Some u https user pass app ver ofx show ?thesis
    by blast
qed
text \<open>
  C9. \<open>ValidateConnector\<close> accepts (returns nil) only if the connector is not nil, its
  URL parses and has the scheme \<open>https\<close> or the hostname \<open>localhost\<close>, its username is not
  empty, its password is not empty unless the URL is a localhost test URL, and its app
  ID, app version and OFX version are not empty, the OFX version being one that
  \<open>ofxgo.NewOfxVersion\<close> parses. Otherwise the error returned lists every violated
  condition: for a nil connector that it must not be empty, and for a connector \<open>c\<close> the
  message of each condition that fails (for a malformed URL the wrapped parse error, for
  an OFX version that does not parse the error of \<open>ofxgo.NewOfxVersion\<close>).
\<close>

theorem ValidateConnector_accepts_only_valid:
  "(ValidateConnector deps connector = None \<longrightarrow>
      (\<exists>c u. connector = Some c
         \<and> urlParse deps (ConnectorURL c) = Inr u
         \<and> (Scheme u = ''https'' \<or> Hostname u = ''localhost'')
         \<and> ConnectorUsername c \<noteq> ''''
         \<and> (ConnectorPassword c \<noteq> '''' \<or> IsLocalhostTestURL deps (ConnectorURL c))
         \<and> AppID (ConnectorConfig c) \<noteq> ''''
         \<and> AppVersion (ConnectorConfig c) \<noteq> ''''
         \<and> OFXVersion (ConnectorConfig c) \<noteq> ''''
         \<and> NewOfxVersion deps (OFXVersion (ConnectorConfig c)) = None))
   \<and> lists_error (ValidateConnector deps None)
         (ErrorsNew ''Direct connect must not be empty'')
   \<and> (\<forall>err. urlParse deps (ConnectorURL c) = Inl err \<longrightarrow>
         lists_error (ValidateConnector deps (Some c))
           (Wrap err ''Institution URL is malformed''))
   \<and> (\<forall>u. urlParse deps (ConnectorURL c) = Inr u
            \<and> Scheme u \<noteq> ''https'' \<and> Hostname u \<noteq> ''localhost'' \<longrightarrow>
         lists_error (ValidateConnector deps (Some c))
           (ErrorsNew ''Institution URL is required to use HTTPS''))
   \<and> (ConnectorUsername c = '''' \<longrightarrow>
         lists_error (ValidateConnector deps (Some c))
           (ErrorsNew ''Institution username must not be empty''))
   \<and> (ConnectorPassword c = '''' \<and> \<not> IsLocalhostTestURL deps (ConnectorURL c) \<longrightarrow>
         lists_error (ValidateConnector deps (Some c))
           (ErrorsNew ''Institution password must not be empty''))
   \<and> (AppID (ConnectorConfig c) = '''' \<longrightarrow>
         lists_error (ValidateConnector deps (Some c))
           (ErrorsNew ''Institution app ID must not be empty''))
   \<and> (AppVersion (ConnectorConfig c) = '''' \<longrightarrow>
         lists_error (ValidateConnector deps (Some c))
           (ErrorsNew ''Institution app version must not be empty''))
   \<and> (OFXVersion (ConnectorConfig c) = '''' \<longrightarrow>
         lists_error (ValidateConnector deps (Some c))
           (ErrorsNew ''Institution OFX version must not be empty''))
   \<and> (\<forall>err. OFXVersion (ConnectorConfig c) \<noteq> ''''
            \<and> NewOfxVersion deps (OFXVersion (ConnectorConfig c)) = Some err \<longrightarrow>
         lists_error (ValidateConnector deps (Some c)) err)"
proof (intro conjI allI impI)
  assume "ValidateConnector deps connector = None"
  then show "\<exists>c u. connector = Some c
         \<and> urlParse deps (ConnectorURL c) = Inr u
         \<and> (Scheme u = ''https'' \<or> Hostname u = ''localhost'')
         \<and> ConnectorUsername c \<noteq> ''''
         \<and> (ConnectorPassword c \<noteq> '''' \<or> IsLocalhostTestURL deps (ConnectorURL c))
         \<and> AppID (ConnectorConfig c) \<noteq> ''''
         \<and> AppVersion (ConnectorConfig c) \<noteq> ''''
         \<and> OFXVersion (ConnectorConfig c) \<noteq> ''''
         \<and> NewOfxVersion deps (OFXVersion (ConnectorConfig c)) = None"
    by (rule ValidateConnector_accepts)
next
  show "lists_error (ValidateConnector deps None)
      (ErrorsNew ''Direct connect must not be empty'')"
    by (rule ValidateConnector_nil)
next
  fix err
  assume "urlParse deps (ConnectorURL c) = Inl err"
  then show "lists_error (ValidateConnector deps (Some c))
      (Wrap err ''Institution URL is malformed'')"
    unfolding ValidateConnector_Some lists_error_ErrOrNil set_append by simp
next
  fix u
  assume "urlParse deps (ConnectorURL c) = Inr u
      \<and> Scheme u \<noteq> ''https'' \<and> Hostname u \<noteq> ''localhost''"
  then show "lists_error (ValidateConnector deps (Some c))
      (ErrorsNew ''Institution URL is required to use HTTPS'')"
    unfolding ValidateConnector_Some lists_error_ErrOrNil set_append by simp
next
  assume "ConnectorUsername c = ''''"
  then show "lists_error (ValidateConnector deps (Some c))
      (ErrorsNew ''Institution username must not be empty'')"
    unfolding ValidateConnector_Some lists_error_ErrOrNil set_append by simp
next
  assume "ConnectorPassword c = '''' \<and> \<not> IsLocalhostTestURL deps (ConnectorURL c)"
  then show "lists_error (ValidateConnector deps (Some c))
      (ErrorsNew ''Institution password must not be empty'')"
    unfolding ValidateConnector_Some lists_error_ErrOrNil set_append by simp
next
  assume "AppID (ConnectorConfig c) = ''''"
  then show "lists_error (ValidateConnector deps (Some c))
      (ErrorsNew ''Institution app ID must not be empty'')"
    unfolding ValidateConnector_Some lists_error_ErrOrNil set_append by simp
next
  assume "AppVersion (ConnectorConfig c) = ''''"
  then show "lists_error (ValidateConnector deps (Some c))
      (ErrorsNew ''Institution app version must not be empty'')"
    unfolding ValidateConnector_Some lists_error_ErrOrNil set_append by simp
next
  assume "OFXVersion (ConnectorConfig c) = ''''"
  then show "lists_error (ValidateConnector deps (Some c))
      (ErrorsNew ''Institution OFX version must not be empty'')"
    unfolding ValidateConnector_Some lists_error_ErrOrNil set_append by simp
next
  fix err
  assume "OFXVersion (ConnectorConfig c) \<noteq> ''''
      \<and> NewOfxVersion deps (OFXVersion (ConnectorConfig c)) = Some err"
  then show "lists_error (ValidateConnector deps (Some c)) err"
    unfolding ValidateConnector_Some lists_error_ErrOrNil set_append by simp
qed

theorem ValidateConnector_accepts_only_valid_witness:
  "ValidateConnector exampleConnectorDeps (Some goodConnector) = None
   \<and> (\<exists>u. urlParse exampleConnectorDeps (ConnectorURL goodConnector) = Inr u
          \<and> Scheme u = ''https'')
   \<and> ConnectorUsername goodConnector \<noteq> ''''
   \<and> lists_error (ValidateConnector exampleConnectorDeps (Some badConnector))
         (ErrorsNew ''Institution URL is required to use HTTPS'')
   \<and> lists_error (ValidateConnector exampleConnectorDeps (Some badConnector))
         (ErrorsNew ''Institution username must not be empty'')
   \<and> lists_error (ValidateConnector exampleConnectorDeps (Some badConnector))
         (ErrorsNew ''Institution password must not be empty'')
   \<and> lists_error (ValidateConnector exampleConnectorDeps (Some badConnector))
         (ErrorsNew ''Institution app ID must not be empty'')
   \<and> lists_error (ValidateConnector exampleConnectorDeps (Some badConnector))
         (ErrorsNew ''Invalid OfxVersion'')"
proof -
  note T = ValidateConnector_accepts_only_valid
    [of exampleConnectorDeps "Some goodConnector" badConnector]
  have accepted: "ValidateConnector exampleConnectorDeps (Some goodConnector) = None"
    by (simp add: ValidateConnector_def exampleConnectorDeps_def goodConnector_def
        Let_def ErrIf_def AddErr_def ErrOrNil_def)
  from T [THEN conjunct1, THEN mp, OF accepted]
  have good: "(\<exists>u. urlParse exampleConnectorDeps (ConnectorURL goodConnector) = Inr u
          \<and> Scheme u = ''https'') \<and> ConnectorUsername goodConnector \<noteq> ''''"
    by (auto simp: exampleConnectorDeps_def goodConnector_def split: if_splits)
  have url: "urlParse exampleConnectorDeps (ConnectorURL badConnector)
        = Inr \<lparr>Scheme = ''http'', Hostname = ''bank.example''\<rparr>
      \<and> Scheme \<lparr>Scheme = ''http'', Hostname = ''bank.example''\<rparr> \<noteq> ''https''
      \<and> Hostname \<lparr>Scheme = ''http'', Hostname = ''bank.example''\<rparr> \<noteq> ''localhost''"
    by (simp add: exampleConnectorDeps_def badConnector_def)
  have user: "ConnectorUsername badConnector = ''''"
    by (simp add: badConnector_def)
  have pass: "ConnectorPassword badConnector = ''''
      \<and> \<not> IsLocalhostTestURL exampleConnectorDeps (ConnectorURL badConnector)"
    by (simp add: badConnector_def exampleConnectorDeps_def)
  have app: "AppID (ConnectorConfig badConnector) = ''''"
    by (simp add: badConnector_def)
  have ofx: "OFXVersion (ConnectorConfig badConnector) \<noteq> ''''
      \<and> NewOfxVersion exampleConnectorDeps (OFXVersion (ConnectorConfig badConnector))
          = Some (ErrorsNew ''Invalid OfxVersion'')"
    by (simp add: badConnector_def exampleConnectorDeps_def)
  note rest = T [THEN conjunct2, THEN conjunct2, THEN conjunct2]
  from accepted good
    rest [THEN conjunct1, THEN spec, THEN mp, OF url]
    rest [THEN conjunct2, THEN conjunct1, THEN mp, OF user]
    rest [THEN conjunct2, THEN conjunct2, THEN conjunct1, THEN mp, OF pass]
    rest [THEN conjunct2, THEN conjunct2, THEN conjunct2, THEN conjunct1, THEN mp, OF app]
    rest [THEN conjunct2, THEN conjunct2, THEN conjunct2, THEN conjunct2, THEN conjunct2,
          THEN conjunct2, THEN spec, THEN mp, OF ofx]
  show ?thesis by blast
qed

section \<open>Properties of fetching transactions\<close>

lemma fetchTransactions_response:
  assumes "runStatements requestors startT endT emptyRequest = Inr query"
    and "Bank query \<noteq> [] \<or> CreditCard query \<noteq> []"
    and "doRequest (addSignonRequest connector query) = Inr response"
  shows "fetchTransactions CodeMeaning connector startT endT requestors doRequest parse =
     (if SignonStatusCode response = 0 then parse response
      else if SignonStatusCode response = 15500 then ([], Some ErrAuthFailed)
      else (case CodeMeaning (SignonStatusCode response) of
              Inl err \<Rightarrow> ([], Some (Wrap err ''Failed to parse OFX response code''))
            | Inr meaning \<Rightarrow>
                ([], Some (Errorf ''Nonzero signon status (%d: %s) with message: %s''
                   [IntArg (SignonStatusCode response), StrArg meaning,
                    StrArg (SignonStatusMessage response)]))))"
  using assms by (auto simp: fetchTransactions_def ofxAuthFailed_def)

lemma fetchTransactions_no_response:
  assumes "\<not> (\<exists>query response. runStatements requestors startT endT emptyRequest = Inr query
      \<and> (Bank query \<noteq> [] \<or> CreditCard query \<noteq> [])
      \<and> doRequest (addSignonRequest connector query) = Inr response)"
  shows "(\<exists>err. runStatements requestors startT endT emptyRequest = Inl err
        \<and> fetchTransactions CodeMeaning connector startT endT requestors doRequest parse
            = ([], Some err))
      \<or> fetchTransactions CodeMeaning connector startT endT requestors doRequest parse
            = ([], Some (Errorf
                 ''Invalid statement query: does not contain any statement requests: %+v''
                 [OpaqueArg]))
      \<or> (\<exists>q err. doRequest q = Inl err
        \<and> fetchTransactions CodeMeaning connector startT endT requestors doRequest parse
            = ([], Some err))"
proof (cases "runStatements requestors startT endT emptyRequest")
  case (Inl err)
  then show ?thesis by (simp add: fetchTransactions_def)
next
  case (Inr query)
  show ?thesis
  proof (cases "Bank query = [] \<and> CreditCard query = []")
    case True
    with Inr show ?thesis by (simp add: fetchTransactions_def)
  next
    case False
    with Inr assms obtain err where "doRequest (addSignonRequest connector query) = Inl err"
      by (cases "doRequest (addSignonRequest connector query)") auto
    with Inr False show ?thesis by (auto simp: fetchTransactions_def)
  qed
qed
text \<open>
  C3. When the requestors have produced a query with at least one statement request
  and the request has returned a response, \<open>fetchTransactions\<close> returns \<open>ErrAuthFailed\<close>
  if the response's signon status code is 15500, an error other than \<open>ErrAuthFailed\<close> if
  the code is any other nonzero value, and what the parser makes of the response (the
  parsed transaction list) if the code is zero. And whenever none of the functions it
  is given (the requestors, the request, the parser) returns \<open>ErrAuthFailed\<close> itself,
  \<open>fetchTransactions\<close> returns \<open>ErrAuthFailed\<close> if and only if there was a response and
  its signon status code is 15500.
\<close>

theorem fetchTransactions_signon_status:
  "(runStatements requestors startT endT emptyRequest = Inr query
      \<and> (Bank query \<noteq> [] \<or> CreditCard query \<noteq> [])
      \<and> doRequest (addSignonRequest connector query) = Inr response \<longrightarrow>
        (SignonStatusCode response = 15500 \<longrightarrow>
           fetchTransactions CodeMeaning connector startT endT requestors doRequest parse
             = ([], Some ErrAuthFailed))
      \<and> (SignonStatusCode response \<noteq> 0 \<and> SignonStatusCode response \<noteq> 15500 \<longrightarrow>
           (\<exists>err. fetchTransactions CodeMeaning connector startT endT requestors doRequest parse
                    = ([], Some err) \<and> err \<noteq> ErrAuthFailed))
      \<and> (SignonStatusCode response = 0 \<longrightarrow>
           fetchTransactions CodeMeaning connector startT endT requestors doRequest parse
             = parse response))
   \<and> (runStatements requestors startT endT emptyRequest \<noteq> Inl ErrAuthFailed
      \<and> (\<forall>q. doRequest q \<noteq> Inl ErrAuthFailed)
      \<and> (\<forall>r. snd (parse r) \<noteq> Some ErrAuthFailed) \<longrightarrow>
        (snd (fetchTransactions CodeMeaning connector startT endT requestors doRequest parse)
           = Some ErrAuthFailed
         \<longleftrightarrow> (\<exists>q r. runStatements requestors startT endT emptyRequest = Inr q
                \<and> (Bank q \<noteq> [] \<or> CreditCard q \<noteq> [])
                \<and> doRequest (addSignonRequest connector q) = Inr r
                \<and> SignonStatusCode r = 15500)))"
proof (intro conjI impI)
  assume h: "runStatements requestors startT endT emptyRequest = Inr query
      \<and> (Bank query \<noteq> [] \<or> CreditCard query \<noteq> [])
      \<and> doRequest (addSignonRequest connector query) = Inr response"
  note eq = fetchTransactions_response [of requestors startT endT query doRequest connector
      response CodeMeaning parse, OF h [THEN conjunct1] h [THEN conjunct2, THEN conjunct1]
      h [THEN conjunct2, THEN conjunct2]]
  {
    assume "SignonStatusCode response = 15500"
    then show "fetchTransactions CodeMeaning connector startT endT requestors doRequest parse
        = ([], Some ErrAuthFailed)"
      by (simp add: eq)
  }
  {
    assume "SignonStatusCode response \<noteq> 0 \<and> SignonStatusCode response \<noteq> 15500"
    then show "\<exists>err. fetchTransactions CodeMeaning connector startT endT requestors doRequest
        parse = ([], Some err) \<and> err \<noteq> ErrAuthFailed"
      by (cases "CodeMeaning (SignonStatusCode response)") (simp_all add: eq)
  }
  {
    assume "SignonStatusCode response = 0"
    then show "fetchTransactions CodeMeaning connector startT endT requestors doRequest parse
        = parse response"
      by (simp add: eq)
  }
next
  let ?fetch = "fetchTransactions CodeMeaning connector startT endT requestors doRequest parse"
  let ?R = "\<exists>q r. runStatements requestors startT endT emptyRequest = Inr q
                \<and> (Bank q \<noteq> [] \<or> CreditCard q \<noteq> [])
                \<and> doRequest (addSignonRequest connector q) = Inr r
                \<and> SignonStatusCode r = 15500"
  assume clean: "runStatements requestors startT endT emptyRequest \<noteq> Inl ErrAuthFailed
      \<and> (\<forall>q. doRequest q \<noteq> Inl ErrAuthFailed)
      \<and> (\<forall>r. snd (parse r) \<noteq> Some ErrAuthFailed)"
  show "snd ?fetch = Some ErrAuthFailed \<longleftrightarrow> ?R"
  proof
    assume auth: "snd ?fetch = Some ErrAuthFailed"
    show ?R
    proof (cases "\<exists>query response. runStatements requestors startT endT emptyRequest = Inr query
        \<and> (Bank query \<noteq> [] \<or> CreditCard query \<noteq> [])
        \<and> doRequest (addSignonRequest connector query) = Inr response")
      case True
      then obtain query response
        where q: "runStatements requestors startT endT emptyRequest = Inr query"
          and b: "Bank query \<noteq> [] \<or> CreditCard query \<noteq> []"
          and r: "doRequest (addSignonRequest connector query) = Inr response"
        by blast
      note eq = fetchTransactions_response [of requestors startT endT query doRequest
          connector response CodeMeaning parse, OF q b r]
      have "SignonStatusCode response = 15500"
      proof (rule ccontr)
        assume n: "SignonStatusCode response \<noteq> 15500"
        show False
        proof (cases "SignonStatusCode response = 0")
          case True
          with auth eq clean show False by simp
        next
          case False
          with n auth eq show False
            by (cases "CodeMeaning (SignonStatusCode response)") simp_all
        qed
      qed
      with q b r show ?thesis by blast
    next
      case False
      from fetchTransactions_no_response [OF False, of CodeMeaning parse] auth clean
      show ?thesis by auto
    qed
  next
    assume ?R
    then obtain q r
      where q: "runStatements requestors startT endT emptyRequest = Inr q"
        and b: "Bank q \<noteq> [] \<or> CreditCard q \<noteq> []"
        and r: "doRequest (addSignonRequest connector q) = Inr r"
        and c: "SignonStatusCode r = 15500"
      by blast
    from fetchTransactions_response [of requestors startT endT q doRequest connector r
        CodeMeaning parse, OF q b r] c
    show "snd ?fetch = Some ErrAuthFailed" by simp
  qed
qed
lemma exampleRequestor_query:
  "runStatements [exampleRequestor] 0 10 emptyRequest = Inr exampleQuery"
  by (simp add: exampleRequestor_def bankAccount_Statement_def generateBankStatement_def
      exampleNewAcctType_def exampleBank_def exampleQuery_def emptyRequest_def)

lemma exampleServer_signon:
  "exampleServer (addSignonRequest goodConnector exampleQuery)
     = Inr \<lparr>SignonStatusCode = 0, SignonStatusMessage = ''OK'', Payload = ''STMT''\<rparr>"
  "exampleServer (addSignonRequest lockedConnector exampleQuery)
     = Inr \<lparr>SignonStatusCode = 15501, SignonStatusMessage = ''In use'', Payload = ''''\<rparr>"
  "exampleServer (addSignonRequest wrongPasswordConnector exampleQuery)
     = Inr \<lparr>SignonStatusCode = 15500, SignonStatusMessage = ''Signon invalid'',
            Payload = ''''\<rparr>"
  by (simp_all add: exampleServer_def addSignonRequest_def goodConnector_def
      lockedConnector_def wrongPasswordConnector_def)

theorem fetchTransactions_signon_status_witness:
  "fetchTransactions exampleCodeMeaning wrongPasswordConnector 0 10 [exampleRequestor]
       exampleServer exampleParse = ([], Some ErrAuthFailed)
   \<and> (\<exists>err. fetchTransactions exampleCodeMeaning lockedConnector 0 10 [exampleRequestor]
               exampleServer exampleParse = ([], Some err) \<and> err \<noteq> ErrAuthFailed)
   \<and> fetchTransactions exampleCodeMeaning goodConnector 0 10 [exampleRequestor]
       exampleServer exampleParse = ([''STMT''], None)
   \<and> snd (fetchTransactions exampleCodeMeaning goodConnector 0 10 [exampleRequestor]
       exampleServer exampleParse) \<noteq> Some ErrAuthFailed"
proof -
  let ?ok = "\<lparr>SignonStatusCode = 0, SignonStatusMessage = ''OK'', Payload = ''STMT''\<rparr>"
  let ?busy = "\<lparr>SignonStatusCode = 15501, SignonStatusMessage = ''In use'', Payload = ''''\<rparr>"
  let ?rejected = "\<lparr>SignonStatusCode = 15500, SignonStatusMessage = ''Signon invalid'',
      Payload = ''''\<rparr>"
  have bank: "Bank exampleQuery \<noteq> [] \<or> CreditCard exampleQuery \<noteq> []"
    by (simp add: exampleQuery_def)
  have h1: "runStatements [exampleRequestor] 0 10 emptyRequest = Inr exampleQuery
      \<and> (Bank exampleQuery \<noteq> [] \<or> CreditCard exampleQuery \<noteq> [])
      \<and> exampleServer (addSignonRequest wrongPasswordConnector exampleQuery) = Inr ?rejected"
    using exampleRequestor_query bank exampleServer_signon(3) by blast
  have h2: "runStatements [exampleRequestor] 0 10 emptyRequest = Inr exampleQuery
      \<and> (Bank exampleQuery \<noteq> [] \<or> CreditCard exampleQuery \<noteq> [])
      \<and> exampleServer (addSignonRequest lockedConnector exampleQuery) = Inr ?busy"
    using exampleRequestor_query bank exampleServer_signon(2) by blast
  have h3: "runStatements [exampleRequestor] 0 10 emptyRequest = Inr exampleQuery
      \<and> (Bank exampleQuery \<noteq> [] \<or> CreditCard exampleQuery \<noteq> [])
      \<and> exampleServer (addSignonRequest goodConnector exampleQuery) = Inr ?ok"
    using exampleRequestor_query bank exampleServer_signon(1) by blast
  have clean: "runStatements [exampleRequestor] 0 10 emptyRequest \<noteq> Inl ErrAuthFailed
      \<and> (\<forall>q. exampleServer q \<noteq> Inl ErrAuthFailed)
      \<and> (\<forall>r. snd (exampleParse r) \<noteq> Some ErrAuthFailed)"
    unfolding exampleRequestor_query by (simp add: exampleServer_def exampleParse_def)
  have c1: "SignonStatusCode ?rejected = 15500" by simp
  have c2: "SignonStatusCode ?busy \<noteq> 0 \<and> SignonStatusCode ?busy \<noteq> 15500" by simp
  have c3: "SignonStatusCode ?ok = 0" by simp
  note T1 = fetchTransactions_signon_status [of "[exampleRequestor]" 0 10 exampleQuery
      exampleServer wrongPasswordConnector ?rejected exampleCodeMeaning exampleParse]
  note T2 = fetchTransactions_signon_status [of "[exampleRequestor]" 0 10 exampleQuery
      exampleServer lockedConnector ?busy exampleCodeMeaning exampleParse]
  note T3 = fetchTransactions_signon_status [of "[exampleRequestor]" 0 10 exampleQuery
      exampleServer goodConnector ?ok exampleCodeMeaning exampleParse]
  have r1: "fetchTransactions exampleCodeMeaning wrongPasswordConnector 0 10 [exampleRequestor]
       exampleServer exampleParse = ([], Some ErrAuthFailed)"
    by (rule T1 [THEN conjunct1, THEN mp, OF h1, THEN conjunct1, THEN mp, OF c1])
  have r2: "\<exists>err. fetchTransactions exampleCodeMeaning lockedConnector 0 10 [exampleRequestor]
               exampleServer exampleParse = ([], Some err) \<and> err \<noteq> ErrAuthFailed"
    by (rule T2 [THEN conjunct1, THEN mp, OF h2, THEN conjunct2, THEN conjunct1, THEN mp,
          OF c2])
  have r3: "fetchTransactions exampleCodeMeaning goodConnector 0 10 [exampleRequestor]
       exampleServer exampleParse = exampleParse ?ok"
    by (rule T3 [THEN conjunct1, THEN mp, OF h3, THEN conjunct2, THEN conjunct2, THEN mp,
          OF c3])
  have unique: "\<And>q r. runStatements [exampleRequestor] 0 10 emptyRequest = Inr q
      \<and> (Bank q \<noteq> [] \<or> CreditCard q \<noteq> [])
      \<and> exampleServer (addSignonRequest goodConnector q) = Inr r \<Longrightarrow> SignonStatusCode r = 0"
    unfolding exampleRequestor_query using exampleServer_signon(1) by auto
  have r4: "snd (fetchTransactions exampleCodeMeaning goodConnector 0 10 [exampleRequestor]
       exampleServer exampleParse) \<noteq> Some ErrAuthFailed"
    using T3 [THEN conjunct2, THEN mp, OF clean] unique by fastforce
  from r1 r2 r3 r4 show ?thesis
    by (simp add: exampleParse_def)
qed

section \<open>Properties of the account handlers\<close>

text \<open>
  What \<open>updateAccount\<close> does once the account has been read and found in the store,
  when the two derived ledger account names are equal; and that it leaves the state as
  it is when the account cannot be read or is not in the store.
\<close>

lemma updateAccount_same_name:
  assumes "readAndValidateAccount deps body (AccountStore st) = Inr account"
    and "StoreGet deps (AccountStore st) (AcctIdent account) = Inr (Some currentAccount)"
    and "LedgerAccountName deps currentAccount = LedgerAccountName deps account"
  shows "updateAccount deps body st =
     (st\<lparr>AccountStore := fst (StoreUpdate deps (AccountStore st) (AcctIdent account) account),
         Calls := Calls st @ [CallStoreUpdate (AcctIdent account)]\<rparr>,
      case snd (StoreUpdate deps (AccountStore st) (AcctIdent account) account) of
        Some err \<Rightarrow> AbortWithError StatusInternalServerError err
      | None \<Rightarrow> NoReply)"
  using assms
  by (simp add: updateAccount_def Let_def split: prod.split option.split)

lemma updateAccount_untouched:
  assumes "\<not> (\<exists>account currentAccount.
      readAndValidateAccount deps body (AccountStore st) = Inr account
      \<and> StoreGet deps (AccountStore st) (AcctIdent account) = Inr (Some currentAccount))"
  shows "fst (updateAccount deps body st) = st"
proof (cases "readAndValidateAccount deps body (AccountStore st)")
  case (Inl err)
  then show ?thesis by (simp add: updateAccount_def)
next
  case (Inr account)
  show ?thesis
  proof (cases "StoreGet deps (AccountStore st) (AcctIdent account)")
    case (Inl err)
    with Inr show ?thesis by (simp add: updateAccount_def)
  next
    case get: (Inr current)
    with Inr assms have "current = None" by (cases current) auto
    with Inr get show ?thesis by (simp add: updateAccount_def)
  qed
qed

text \<open>
  C8. In \<open>updateAccount\<close>, when the derived ledger account name of the submitted account
  equals that of the stored account, the ledger and the ledger file are as before and
  the only mutating call made is the store's \<open>Update\<close> of that account: the store entry
  is all that changes. Conversely, whenever the handler has called the ledger's rename
  or the ledger-file write, or the ledger or the file differ from before, the account
  was read, was found in the store, and the two derived names differ.
\<close>

theorem updateAccount_rename_only_when_names_differ:
  "(readAndValidateAccount deps body (AccountStore st) = Inr account
      \<and> StoreGet deps (AccountStore st) (AcctIdent account) = Inr (Some currentAccount)
      \<and> LedgerAccountName deps currentAccount = LedgerAccountName deps account \<longrightarrow>
        Ledger (fst (updateAccount deps body st)) = Ledger st
      \<and> LedgerFile (fst (updateAccount deps body st)) = LedgerFile st
      \<and> Calls (fst (updateAccount deps body st))
          = Calls st @ [CallStoreUpdate (AcctIdent account)]
      \<and> AccountStore (fst (updateAccount deps body st))
          = fst (StoreUpdate deps (AccountStore st) (AcctIdent account) account))
   \<and> ((\<exists>old new. CallLedgerUpdateAccount old new
                     \<in> set (drop (length (Calls st)) (Calls (fst (updateAccount deps body st)))))
        \<or> CallLedgerFile
             \<in> set (drop (length (Calls st)) (Calls (fst (updateAccount deps body st))))
        \<or> Ledger (fst (updateAccount deps body st)) \<noteq> Ledger st
        \<or> LedgerFile (fst (updateAccount deps body st)) \<noteq> LedgerFile st \<longrightarrow>
        (\<exists>acct cur. readAndValidateAccount deps body (AccountStore st) = Inr acct
           \<and> StoreGet deps (AccountStore st) (AcctIdent acct) = Inr (Some cur)
           \<and> LedgerAccountName deps cur \<noteq> LedgerAccountName deps acct))"
proof (intro conjI impI)
  assume h: "readAndValidateAccount deps body (AccountStore st) = Inr account
      \<and> StoreGet deps (AccountStore st) (AcctIdent account) = Inr (Some currentAccount)
      \<and> LedgerAccountName deps currentAccount = LedgerAccountName deps account"
  note eq = updateAccount_same_name [OF h [THEN conjunct1] h [THEN conjunct2, THEN conjunct1]
      h [THEN conjunct2, THEN conjunct2]]
  show "Ledger (fst (updateAccount deps body st)) = Ledger st"
    by (simp add: eq)
  show "LedgerFile (fst (updateAccount deps body st)) = LedgerFile st"
    by (simp add: eq)
  show "Calls (fst (updateAccount deps body st))
      = Calls st @ [CallStoreUpdate (AcctIdent account)]"
    by (simp add: eq)
  show "AccountStore (fst (updateAccount deps body st))
      = fst (StoreUpdate deps (AccountStore st) (AcctIdent account) account)"
    by (simp add: eq)
next
  let ?st' = "fst (updateAccount deps body st)"
  assume touched: "(\<exists>old new. CallLedgerUpdateAccount old new
                     \<in> set (drop (length (Calls st)) (Calls ?st')))
        \<or> CallLedgerFile \<in> set (drop (length (Calls st)) (Calls ?st'))
        \<or> Ledger ?st' \<noteq> Ledger st
        \<or> LedgerFile ?st' \<noteq> LedgerFile st"
  show "\<exists>acct cur. readAndValidateAccount deps body (AccountStore st) = Inr acct
           \<and> StoreGet deps (AccountStore st) (AcctIdent acct) = Inr (Some cur)
           \<and> LedgerAccountName deps cur \<noteq> LedgerAccountName deps acct"
  proof (rule ccontr)
    assume none: "\<not> (\<exists>acct cur. readAndValidateAccount deps body (AccountStore st) = Inr acct
           \<and> StoreGet deps (AccountStore st) (AcctIdent acct) = Inr (Some cur)
           \<and> LedgerAccountName deps cur \<noteq> LedgerAccountName deps acct)"
    show False
    proof (cases "\<exists>acct cur. readAndValidateAccount deps body (AccountStore st) = Inr acct
        \<and> StoreGet deps (AccountStore st) (AcctIdent acct) = Inr (Some cur)")
      case True
      then obtain acct cur
        where a: "readAndValidateAccount deps body (AccountStore st) = Inr acct"
          and c: "StoreGet deps (AccountStore st) (AcctIdent acct) = Inr (Some cur)"
        by blast
      with none have same: "LedgerAccountName deps cur = LedgerAccountName deps acct"
        by blast
      from touched show False
        by (simp add: updateAccount_same_name [OF a c same])
    next
      case False
      from touched show False
        by (simp add: updateAccount_untouched [OF False])
    qed
  qed
qed
lemma example_read_same:
  "readAndValidateAccount exampleServerDeps (Inr ''same'') (AccountStore exampleState)
     = Inr storedAccount"
  by (simp add: readAndValidateAccount_def exampleServerDeps_def exampleUnmarshal_def
      exampleState_def storedAccount_def goodConnector_def)

lemma example_read_renamed:
  "readAndValidateAccount exampleServerDeps (Inr ''renamed'') (AccountStore exampleState)
     = Inr (storedAccount\<lparr>AcctDescription := ''Joint''\<rparr>)"
  by (simp add: readAndValidateAccount_def exampleServerDeps_def exampleUnmarshal_def
      exampleState_def storedAccount_def goodConnector_def)

lemma example_get:
  "StoreGet exampleServerDeps (AccountStore exampleState) ''1234'' = Inr (Some storedAccount)"
  by (simp add: exampleServerDeps_def exampleState_def)

lemma example_update_renamed:
  "Calls (fst (updateAccount exampleServerDeps (Inr ''renamed'') exampleState))
     = [CallStoreUpdate ''1234'',
        CallLedgerUpdateAccount ''assets:Checking:1234'' ''assets:Joint:1234'',
        CallLedgerFile]"
  "Ledger (fst (updateAccount exampleServerDeps (Inr ''renamed'') exampleState))
     = [''assets:Joint:1234'', ''expenses:food'']"
  unfolding updateAccount_def example_read_renamed
  by (simp_all add: exampleServerDeps_def exampleState_def storedAccount_def
      exampleLedgerUpdateAccount_def Let_def)

theorem updateAccount_rename_only_when_names_differ_witness:
  "Ledger (fst (updateAccount exampleServerDeps (Inr ''same'') exampleState))
       = [''assets:Checking:1234'', ''expenses:food'']
   \<and> LedgerFile (fst (updateAccount exampleServerDeps (Inr ''same'') exampleState))
       = [''assets:Checking:1234'', ''expenses:food'']
   \<and> Calls (fst (updateAccount exampleServerDeps (Inr ''same'') exampleState))
       = [CallStoreUpdate ''1234'']
   \<and> CallLedgerFile
       \<in> set (Calls (fst (updateAccount exampleServerDeps (Inr ''renamed'') exampleState)))
   \<and> (\<exists>acct cur.
         readAndValidateAccount exampleServerDeps (Inr ''renamed'') (AccountStore exampleState)
           = Inr acct
       \<and> StoreGet exampleServerDeps (AccountStore exampleState) (AcctIdent acct) = Inr (Some cur)
       \<and> LedgerAccountName exampleServerDeps cur \<noteq> LedgerAccountName exampleServerDeps acct)"
proof -
  note T1 = updateAccount_rename_only_when_names_differ
    [of exampleServerDeps "Inr ''same''" exampleState storedAccount storedAccount]
  note T2 = updateAccount_rename_only_when_names_differ
    [of exampleServerDeps "Inr ''renamed''" exampleState storedAccount storedAccount]
  have h: "readAndValidateAccount exampleServerDeps (Inr ''same'') (AccountStore exampleState)
        = Inr storedAccount
      \<and> StoreGet exampleServerDeps (AccountStore exampleState) (AcctIdent storedAccount)
        = Inr (Some storedAccount)
      \<and> LedgerAccountName exampleServerDeps storedAccount
        = LedgerAccountName exampleServerDeps storedAccount"
    using example_read_same example_get by (simp add: storedAccount_def)
  have written: "CallLedgerFile
      \<in> set (Calls (fst (updateAccount exampleServerDeps (Inr ''renamed'') exampleState)))"
    by (simp add: example_update_renamed)
  then have touched: "(\<exists>old new. CallLedgerUpdateAccount old new
        \<in> set (drop (length (Calls exampleState))
            (Calls (fst (updateAccount exampleServerDeps (Inr ''renamed'') exampleState)))))
      \<or> CallLedgerFile
        \<in> set (drop (length (Calls exampleState))
            (Calls (fst (updateAccount exampleServerDeps (Inr ''renamed'') exampleState))))
      \<or> Ledger (fst (updateAccount exampleServerDeps (Inr ''renamed'') exampleState))
          \<noteq> Ledger exampleState
      \<or> LedgerFile (fst (updateAccount exampleServerDeps (Inr ''renamed'') exampleState))
          \<noteq> LedgerFile exampleState"
    by (simp add: exampleState_def)
  from T1 [THEN conjunct1, THEN mp, OF h] T2 [THEN conjunct2, THEN mp, OF touched] written
  show ?thesis
    by (simp add: exampleState_def storedAccount_def)
qed






lemma verifyAccount_password_required:
  assumes "readAndValidateAccount deps body accountStore = Inr account"
    and "AcctInstitution account = DirectConnector connector"
    and "AcctRequestor account = Some requestor"
    and "DirectVerify deps connector requestor = None"
    and "ConnectorPassword connector = ''''"
    and "\<not> IsLocalhostTest deps (ConnectorURL connector)"
    and "StoreGet deps accountStore (AcctIdent account) = Inr None"
  shows "verifyAccount deps body accountStore = AbortWithError 400 errPasswordRequired"
  using assms by (simp add: verifyAccount_def StatusBadRequest_def)

text \<open>
  An error of the store's \<open>Get\<close> inside \<open>readAndValidateAccount\<close> is answered with 400 as
  well, although the same error is answered with 500 where \<open>verifyAccount\<close>,
  \<open>updateAccount\<close> and \<open>getAccount\<close> call \<open>Get\<close> themselves.
\<close>

lemma verifyAccount_store_failure_is_bad_request:
  "verifyAccount failingStoreDeps (Inr ''same'') [(''1234'', storedAccount)]
     = AbortWithError 400 (ErrorsNew ''store is unreadable'')"
  by (simp add: verifyAccount_def readAndValidateAccount_def failingStoreDeps_def
      exampleServerDeps_def exampleUnmarshal_def storedAccount_def goodConnector_def
      StatusBadRequest_def)










text \<open>
  \<open>updateAccount\<close> follows the same pattern: an error of \<open>readAndValidateAccount\<close> is
  answered with 400, an error of the store's \<open>Get\<close> in the handler itself with 500, an
  account the store does not hold with 404.
\<close>

lemma updateAccount_statuses:
  "readAndValidateAccount deps body (AccountStore st) = Inl err \<Longrightarrow>
     snd (updateAccount deps body st) = AbortWithError 400 err"
  "readAndValidateAccount deps body (AccountStore st) = Inr account \<Longrightarrow>
     StoreGet deps (AccountStore st) (AcctIdent account) = Inl err \<Longrightarrow>
     snd (updateAccount deps body st) = AbortWithError 500 err"
  "readAndValidateAccount deps body (AccountStore st) = Inr account \<Longrightarrow>
     StoreGet deps (AccountStore st) (AcctIdent account) = Inr None \<Longrightarrow>
     snd (updateAccount deps body st) = AbortWithStatus 404"
  by (simp_all add: updateAccount_def StatusBadRequest_def StatusInternalServerError_def
      StatusNotFound_def)

section \<open>Properties of the background sync task\<close>

text \<open>
  A partial error of the first sync does not stop the goroutine: the ticker loop is
  entered and every tick whose sync succeeds is followed by the next.
\<close>

lemma syncGoroutine_first_partial:
  "syncGoroutine (Some LedgerError) events = syncGoroutine None events"
  by (simp add: syncGoroutine_def)

lemma tickerLoop_stops_at_any_error:
  "tickerLoop (Tick (Some err) # events) = (1, Some err)"
  by simp

text \<open>
  C2. The first sync succeeds, the sync of the first tick ends with a partial error (an
  error of type \<open>ledger.Error\<close>), and a second tick follows. \<open>runSync\<close> is called twice,
  not three times, and the partial error is sent on \<open>errs\<close>: the partial failure of a
  scheduled cycle stops the loop, and the next scheduled cycle does not run. When the
  same partial error is the result of the first sync, both ticks run.
\<close>

theorem syncGoroutine_partial_error_stops_ticker:
  "syncGoroutine None [Tick (Some LedgerError), Tick None] = (2, Some LedgerError)
   \<and> syncGoroutine (Some LedgerError) [Tick None, Tick None] = (3, None)"
  by (simp add: syncGoroutine_def)

section \<open>Properties of the ledger\<close>

lemma hasPostings_iff:
  "hasPostings name ledger \<longleftrightarrow>
     (\<exists>tx\<in>set ledger. \<exists>p\<in>set (TxPostings tx). PostAccount p = name)"
  by (simp add: hasPostings_def list_ex_iff)

lemma renamePosting_fields:
  "PostAmount (renamePosting old new p) = PostAmount p"
  "PostCurrency (renamePosting old new p) = PostCurrency p"
  "PostAccount (renamePosting old new p) = (if PostAccount p = old then new else PostAccount p)"
  by (simp_all add: renamePosting_def)

lemma renameTransaction_fields:
  "TxDate (renameTransaction old new tx) = TxDate tx"
  "TxPayee (renameTransaction old new tx) = TxPayee tx"
  "TxExternalID (renameTransaction old new tx) = TxExternalID tx"
  "TxComment (renameTransaction old new tx) = TxComment tx"
  "TxPostings (renameTransaction old new tx) = map (renamePosting old new) (TxPostings tx)"
  by (simp_all add: renameTransaction_def)

text \<open>After a rename to a different name no posting is left on the old account.\<close>

lemma UpdateAccountName_removes_old:
  assumes "hasPostings old ledger" and "old \<noteq> new"
  shows "\<not> hasPostings old (fst (UpdateAccountName old new ledger))"
  using assms
  by (auto simp: UpdateAccountName_def hasPostings_iff renameTransaction_fields
      renamePosting_fields)

text \<open>
  C7. When \<open>old\<close> is the account of some posting, \<open>UpdateAccountName old new\<close> succeeds
  and the ledger it returns has the same transactions with the same postings, in the
  same order, except that every posting on \<open>old\<close> is now on \<open>new\<close>; dates, payees,
  identifiers, comments, amounts and currencies are untouched. When \<open>old\<close> is the
  account of no posting, it fails with \<open>NotFoundError\<close> and returns the ledger unchanged.
\<close>

theorem UpdateAccountName_renames_or_not_found:
  "((\<exists>tx\<in>set ledger. \<exists>p\<in>set (TxPostings tx). PostAccount p = old) \<longrightarrow>
      snd (UpdateAccountName old new ledger) = None
    \<and> length (fst (UpdateAccountName old new ledger)) = length ledger
    \<and> (\<forall>i<length ledger.
          TxDate (fst (UpdateAccountName old new ledger) ! i) = TxDate (ledger ! i)
        \<and> TxPayee (fst (UpdateAccountName old new ledger) ! i) = TxPayee (ledger ! i)
        \<and> TxExternalID (fst (UpdateAccountName old new ledger) ! i) = TxExternalID (ledger ! i)
        \<and> TxComment (fst (UpdateAccountName old new ledger) ! i) = TxComment (ledger ! i)
        \<and> length (TxPostings (fst (UpdateAccountName old new ledger) ! i))
            = length (TxPostings (ledger ! i))
        \<and> (\<forall>j<length (TxPostings (ledger ! i)).
              PostAmount (TxPostings (fst (UpdateAccountName old new ledger) ! i) ! j)
                = PostAmount (TxPostings (ledger ! i) ! j)
            \<and> PostCurrency (TxPostings (fst (UpdateAccountName old new ledger) ! i) ! j)
                = PostCurrency (TxPostings (ledger ! i) ! j)
            \<and> PostAccount (TxPostings (fst (UpdateAccountName old new ledger) ! i) ! j)
                = (if PostAccount (TxPostings (ledger ! i) ! j) = old then new
                   else PostAccount (TxPostings (ledger ! i) ! j)))))
   \<and> (\<not> (\<exists>tx\<in>set ledger. \<exists>p\<in>set (TxPostings tx). PostAccount p = old) \<longrightarrow>
      UpdateAccountName old new ledger = (ledger, Some NotFoundError))"
proof (intro conjI impI)
  assume "\<exists>tx\<in>set ledger. \<exists>p\<in>set (TxPostings tx). PostAccount p = old"
  then have has: "hasPostings old ledger"
    by (simp add: hasPostings_iff)
  then have eq: "UpdateAccountName old new ledger = (map (renameTransaction old new) ledger, None)"
    by (simp add: UpdateAccountName_def)
  show "snd (UpdateAccountName old new ledger) = None"
    by (simp add: eq)
  show "length (fst (UpdateAccountName old new ledger)) = length ledger"
    by (simp add: eq)
  show "\<forall>i<length ledger.
          TxDate (fst (UpdateAccountName old new ledger) ! i) = TxDate (ledger ! i)
        \<and> TxPayee (fst (UpdateAccountName old new ledger) ! i) = TxPayee (ledger ! i)
        \<and> TxExternalID (fst (UpdateAccountName old new ledger) ! i) = TxExternalID (ledger ! i)
        \<and> TxComment (fst (UpdateAccountName old new ledger) ! i) = TxComment (ledger ! i)
        \<and> length (TxPostings (fst (UpdateAccountName old new ledger) ! i))
            = length (TxPostings (ledger ! i))
        \<and> (\<forall>j<length (TxPostings (ledger ! i)).
              PostAmount (TxPostings (fst (UpdateAccountName old new ledger) ! i) ! j)
                = PostAmount (TxPostings (ledger ! i) ! j)
            \<and> PostCurrency (TxPostings (fst (UpdateAccountName old new ledger) ! i) ! j)
                = PostCurrency (TxPostings (ledger ! i) ! j)
            \<and> PostAccount (TxPostings (fst (UpdateAccountName old new ledger) ! i) ! j)
                = (if PostAccount (TxPostings (ledger ! i) ! j) = old then new
                   else PostAccount (TxPostings (ledger ! i) ! j)))"
    by (simp add: eq renameTransaction_fields renamePosting_fields)
next
  assume "\<not> (\<exists>tx\<in>set ledger. \<exists>p\<in>set (TxPostings tx). PostAccount p = old)"
  then have "\<not> hasPostings old ledger"
    by (simp add: hasPostings_iff)
  then show "UpdateAccountName old new ledger = (ledger, Some NotFoundError)"
    by (simp add: UpdateAccountName_def)
qed

theorem UpdateAccountName_renames_or_not_found_witness:
  "UpdateAccountName ''assets:checking'' ''assets:joint'' exampleLedger
     = ([\<lparr>TxDate = 1, TxPayee = ''Corner Shop'', TxExternalID = None, TxComment = '''',
          TxPostings =
            [\<lparr>PostAccount = ''assets:joint'', PostAmount = - 500, PostCurrency = ''USD''\<rparr>,
             \<lparr>PostAccount = ''expenses:food'', PostAmount = 500, PostCurrency = ''USD''\<rparr>]\<rparr>],
        None)
   \<and> snd (UpdateAccountName ''assets:checking'' ''assets:joint'' exampleLedger) = None
   \<and> PostAccount (TxPostings
        (fst (UpdateAccountName ''assets:checking'' ''assets:joint'' exampleLedger) ! 0) ! 0)
       = ''assets:joint''
   \<and> UpdateAccountName ''assets:savings'' ''assets:joint'' exampleLedger
       = (exampleLedger, Some NotFoundError)"
proof -
  have h1: "\<exists>tx\<in>set exampleLedger. \<exists>p\<in>set (TxPostings tx). PostAccount p = ''assets:checking''"
    by (simp add: exampleLedger_def)
  have h2: "\<not> (\<exists>tx\<in>set exampleLedger. \<exists>p\<in>set (TxPostings tx).
      PostAccount p = ''assets:savings'')"
    by (simp add: exampleLedger_def)
  note T1 = UpdateAccountName_renames_or_not_found
    [of exampleLedger "''assets:checking''" "''assets:joint''", THEN conjunct1, THEN mp, OF h1]
  note T2 = UpdateAccountName_renames_or_not_found
    [of exampleLedger "''assets:savings''" "''assets:joint''", THEN conjunct2, THEN mp, OF h2]
  have len: "(0::nat) < length exampleLedger" "(0::nat) < length (TxPostings (exampleLedger ! 0))"
    by (simp_all add: exampleLedger_def)
  from T1 [THEN conjunct2, THEN conjunct2, THEN spec, THEN mp, OF len(1)]
  have acct: "PostAccount (TxPostings
        (fst (UpdateAccountName ''assets:checking'' ''assets:joint'' exampleLedger) ! 0) ! 0)
       = (if PostAccount (TxPostings (exampleLedger ! 0) ! 0) = ''assets:checking''
          then ''assets:joint'' else PostAccount (TxPostings (exampleLedger ! 0) ! 0))"
    using len(2) by blast
  have eval: "UpdateAccountName ''assets:checking'' ''assets:joint'' exampleLedger
     = ([\<lparr>TxDate = 1, TxPayee = ''Corner Shop'', TxExternalID = None, TxComment = '''',
          TxPostings =
            [\<lparr>PostAccount = ''assets:joint'', PostAmount = - 500, PostCurrency = ''USD''\<rparr>,
             \<lparr>PostAccount = ''expenses:food'', PostAmount = 500, PostCurrency = ''USD''\<rparr>]\<rparr>],
        None)"
    by (simp add: UpdateAccountName_def hasPostings_def exampleLedger_def
        renameTransaction_def renamePosting_def)
  have first: "PostAccount (TxPostings (exampleLedger ! 0) ! 0) = ''assets:checking''"
    by (simp add: exampleLedger_def)
  from eval T1 [THEN conjunct1] acct [unfolded first] T2 show ?thesis
    by simp
qed

section \<open>Properties of the rule engine\<close>

lemma Categorize_skips_non_matching:
  assumes "\<forall>q\<in>set before. \<not> matches (RulePattern q) payee"
  shows "Categorize matches (before @ rest) payee current = Categorize matches rest payee current"
  using assms by (induction before) simp_all

text \<open>
  C6. \<open>Categorize\<close> is a function of the rule list, the payee and the current assignment
  (so it is deterministic and cannot fail). The rules are tried in the order of the
  list: when no rule before \<open>r\<close> matches and \<open>r\<close> matches, the result is what \<open>r\<close>
  assigns, whatever the rules after \<open>r\<close> are; when no rule matches, the assignment given
  (the default category) is returned as it is.
\<close>

theorem Categorize_first_match_wins:
  "((\<forall>q\<in>set before. \<not> matches (RulePattern q) payee) \<and> matches (RulePattern r) payee \<longrightarrow>
      Categorize matches (before @ r # rest) payee current = assign r current)
   \<and> ((\<forall>q\<in>set rules. \<not> matches (RulePattern q) payee) \<longrightarrow>
      Categorize matches rules payee current = current)"
proof (intro conjI impI)
  assume "(\<forall>q\<in>set before. \<not> matches (RulePattern q) payee) \<and> matches (RulePattern r) payee"
  then show "Categorize matches (before @ r # rest) payee current = assign r current"
    by (simp add: Categorize_skips_non_matching)
next
  assume "\<forall>q\<in>set rules. \<not> matches (RulePattern q) payee"
  then have "Categorize matches (rules @ []) payee current = Categorize matches [] payee current"
    by (rule Categorize_skips_non_matching)
  then show "Categorize matches rules payee current = current"
    by simp
qed

lemma exampleMatches_grocery:
  "\<not> exampleMatches ''rent'' ''Grocery Store''"
  "exampleMatches ''grocery'' ''Grocery Store''"
  "exampleMatches ''.*'' ''Grocery Store''"
  "\<not> exampleMatches ''grocery'' ''Landlord''"
  "\<not> exampleMatches ''rent'' ''Landlord''"
  by code_simp+

text \<open>The order of the rules matters: the two rules of the example, swapped.\<close>

lemma Categorize_order_dependent:
  "Categorize exampleMatches [ruleGrocery, ruleAny] ''Grocery Store'' (''unknown'', '''')
     = (''Food'', '''')"
  "Categorize exampleMatches [ruleAny, ruleGrocery] ''Grocery Store'' (''unknown'', '''')
     = (''Other'', '''')"
  by (simp_all add: exampleMatches_grocery ruleGrocery_def ruleAny_def assign_def)

theorem Categorize_first_match_wins_witness:
  "Categorize exampleMatches ([ruleRent] @ ruleGrocery # [ruleAny]) ''Grocery Store''
       (''unknown'', '''') = (''Food'', '''')
   \<and> Categorize exampleMatches [ruleRent, ruleGrocery] ''Landlord'' (''unknown'', '''')
       = (''unknown'', '''')"
proof -
  have h1: "(\<forall>q\<in>set [ruleRent]. \<not> exampleMatches (RulePattern q) ''Grocery Store'')
      \<and> exampleMatches (RulePattern ruleGrocery) ''Grocery Store''"
    by (simp add: ruleRent_def ruleGrocery_def exampleMatches_grocery)
  have h2: "\<forall>q\<in>set [ruleRent, ruleGrocery]. \<not> exampleMatches (RulePattern q) ''Landlord''"
    by (simp add: ruleRent_def ruleGrocery_def exampleMatches_grocery)
  have a: "assign ruleGrocery (''unknown'', '''') = (''Food'', '''')"
    by (simp add: assign_def ruleGrocery_def)
  from Categorize_first_match_wins [of "[ruleRent]" exampleMatches "''Grocery Store''"
      ruleGrocery "[ruleAny]" "(''unknown'', '''')", THEN conjunct1, THEN mp, OF h1]
    Categorize_first_match_wins [of _ exampleMatches "''Landlord''" _ _ "(''unknown'', '''')"
      "[ruleRent, ruleGrocery]", THEN conjunct2, THEN mp, OF h2]
  show ?thesis
    by (simp only: a simp_thms)
qed

section \<open>Properties of reconciliation\<close>

lemma isDuplicate_mono:
  assumes "set ledger \<subseteq> set ledger'"
    and "isDuplicate ledger account date payee amount externalID"
  shows "isDuplicate ledger' account date payee amount externalID"
  using assms
  by (cases externalID) (auto simp: isDuplicate_def list_ex_iff)

text \<open>
  A transaction built from a raw transaction makes that raw transaction a duplicate,
  by its external ID when it has one and by date, payee and amount otherwise.
\<close>

lemma isDuplicate_built:
  assumes "buildTransaction env account date payee amount externalID \<in> set ledger"
  shows "isDuplicate ledger account date payee amount externalID"
proof (cases externalID)
  case None
  let ?tx = "buildTransaction env account date payee amount externalID"
  have "TxDate ?tx = date \<and> TxPayee ?tx = payee
      \<and> (\<exists>p\<in>set (TxPostings ?tx). PostAccount p = account \<and> PostAmount p = amount)"
    by (simp add: buildTransaction_def Let_def)
  with assms None show ?thesis
    unfolding isDuplicate_def list_ex_iff by auto
next
  case (Some i)
  let ?tx = "buildTransaction env account date payee amount externalID"
  have "TxExternalID ?tx = Some i \<and> (\<exists>p\<in>set (TxPostings ?tx). PostAccount p = account)"
    by (simp add: buildTransaction_def Let_def Some)
  with assms Some show ?thesis
    unfolding isDuplicate_def list_ex_iff by auto
qed

lemma reconcileEach_new_or_duplicate:
  assumes "raw \<in> set raws" and "RawDate raw = Some date" and "RawAmount raw = Some amount"
  shows "isDuplicate ledger account date (RawPayee raw) amount (RawExternalID raw)
      \<or> buildTransaction env account date (RawPayee raw) amount (RawExternalID raw)
          \<in> set (fst (reconcileEach env ledger account raws))"
  using assms
proof (induction raws)
  case Nil
  then show ?case by simp
next
  case (Cons r raws)
  show ?case
  proof (cases "raw = r")
    case True
    with Cons.prems show ?thesis
      by (simp split: prod.split)
  next
    case False
    with Cons have "isDuplicate ledger account date (RawPayee raw) amount (RawExternalID raw)
      \<or> buildTransaction env account date (RawPayee raw) amount (RawExternalID raw)
          \<in> set (fst (reconcileEach env ledger account raws))"
      by simp
    then show ?thesis
      by (auto split: prod.split option.split)
  qed
qed

lemma reconcileEach_all_duplicates:
  assumes "\<forall>raw\<in>set raws. \<forall>date amount.
      RawDate raw = Some date \<longrightarrow> RawAmount raw = Some amount \<longrightarrow>
      isDuplicate ledger account date (RawPayee raw) amount (RawExternalID raw)"
  shows "fst (reconcileEach env ledger account raws) = []"
  using assms
  by (induction raws) (auto split: prod.split option.split)

lemma set_fst_Reconcile:
  "set (fst (Reconcile env ledger account raws)) = set (fst (reconcileEach env ledger account raws))"
  by (cases "reconcileEach env ledger account raws") (simp add: Reconcile_def)

text \<open>
  C5. Let a first run of \<open>Reconcile\<close> on a ledger and a batch of raw transactions be
  followed by the caller committing its new transactions: the ledger then holds every
  transaction it held before and every new one (\<open>Reconcile\<close> itself only reads the
  ledger). A second run with the same batch yields no new transaction, and every raw
  transaction of the batch that has a date and an amount is recognized as a duplicate,
  by its external ID when it has one and by date, amount and payee otherwise.
\<close>

theorem Reconcile_second_run_yields_nothing:
  "set ledger \<union> set (fst (Reconcile env ledger account raws)) \<subseteq> set ledger' \<longrightarrow>
     fst (Reconcile env ledger' account raws) = []
   \<and> (\<forall>raw\<in>set raws. \<forall>date amount.
         RawDate raw = Some date \<longrightarrow> RawAmount raw = Some amount \<longrightarrow>
         isDuplicate ledger' account date (RawPayee raw) amount (RawExternalID raw))"
proof (intro impI)
  assume sub: "set ledger \<union> set (fst (Reconcile env ledger account raws)) \<subseteq> set ledger'"
  have dup: "isDuplicate ledger' account date (RawPayee raw) amount (RawExternalID raw)"
    if "raw \<in> set raws" and "RawDate raw = Some date" and "RawAmount raw = Some amount"
    for raw date amount
  proof -
    from reconcileEach_new_or_duplicate [OF that, of ledger account env]
    show ?thesis
    proof
      assume "isDuplicate ledger account date (RawPayee raw) amount (RawExternalID raw)"
      with sub show ?thesis
        by (auto intro: isDuplicate_mono)
    next
      assume "buildTransaction env account date (RawPayee raw) amount (RawExternalID raw)
          \<in> set (fst (reconcileEach env ledger account raws))"
      with sub have "buildTransaction env account date (RawPayee raw) amount (RawExternalID raw)
          \<in> set ledger'"
        by (auto simp: set_fst_Reconcile)
      then show ?thesis
        by (rule isDuplicate_built)
    qed
  qed
  then have all: "\<forall>raw\<in>set raws. \<forall>date amount.
         RawDate raw = Some date \<longrightarrow> RawAmount raw = Some amount \<longrightarrow>
         isDuplicate ledger' account date (RawPayee raw) amount (RawExternalID raw)"
    by blast
  then have "fst (reconcileEach env ledger' account raws) = []"
    by (rule reconcileEach_all_duplicates)
  then have "fst (Reconcile env ledger' account raws) = []"
    by (cases "reconcileEach env ledger' account raws") (simp add: Reconcile_def)
  with all show "fst (Reconcile env ledger' account raws) = []
   \<and> (\<forall>raw\<in>set raws. \<forall>date amount.
         RawDate raw = Some date \<longrightarrow> RawAmount raw = Some amount \<longrightarrow>
         isDuplicate ledger' account date (RawPayee raw) amount (RawExternalID raw))"
    by blast
qed
lemma example_first_run:
  "Reconcile exampleEnv exampleLedger ''assets:checking'' exampleRaws
     = (exampleNew,
        [(\<lparr>RawDate = None, RawPayee = ''Broken'', RawAmount = Some 1, RawExternalID = None\<rparr>,
          ParseError)])"
  by code_simp

theorem Reconcile_second_run_yields_nothing_witness:
  "fst (Reconcile exampleEnv exampleLedger ''assets:checking'' exampleRaws) = exampleNew
   \<and> fst (Reconcile exampleEnv (exampleLedger @ exampleNew) ''assets:checking'' exampleRaws) = []
   \<and> isDuplicate (exampleLedger @ exampleNew) ''assets:checking'' 3 ''Grocery Store'' (- 1200)
       (Some ''T-1'')
   \<and> isDuplicate (exampleLedger @ exampleNew) ''assets:checking'' 2 ''Landlord'' (- 90000) None"
proof -
  have first: "fst (Reconcile exampleEnv exampleLedger ''assets:checking'' exampleRaws)
      = exampleNew"
    by (simp add: example_first_run)
  have committed: "set exampleLedger
      \<union> set (fst (Reconcile exampleEnv exampleLedger ''assets:checking'' exampleRaws))
      \<subseteq> set (exampleLedger @ exampleNew)"
    by (simp add: first)
  note T = Reconcile_second_run_yields_nothing [of exampleLedger exampleEnv
      "''assets:checking''" exampleRaws "exampleLedger @ exampleNew", THEN mp, OF committed]
  let ?r1 = "\<lparr>RawDate = Some 3, RawPayee = ''Grocery Store'', RawAmount = Some (- 1200),
       RawExternalID = Some ''T-1''\<rparr>"
  let ?r2 = "\<lparr>RawDate = Some 2, RawPayee = ''Landlord'', RawAmount = Some (- 90000),
       RawExternalID = None\<rparr>"
  have in1: "?r1 \<in> set exampleRaws" and in2: "?r2 \<in> set exampleRaws"
    by (simp_all add: exampleRaws_def)
  from T [THEN conjunct2, THEN bspec, OF in1, THEN spec, THEN spec, of 3 "- 1200"]
  have d1: "isDuplicate (exampleLedger @ exampleNew) ''assets:checking'' 3 ''Grocery Store''
      (- 1200) (Some ''T-1'')"
    by simp
  from T [THEN conjunct2, THEN bspec, OF in2, THEN spec, THEN spec, of 2 "- 90000"]
  have d2: "isDuplicate (exampleLedger @ exampleNew) ''assets:checking'' 2 ''Landlord''
      (- 90000) None"
    by simp
  from first T [THEN conjunct1] d1 d2 show ?thesis
    by blast
qed

end
